theory Spec2Isabelle
  imports Complex_Main
begin

section \<open>JavaScript numbers\<close>

text \<open>
  Every number of \<^verbatim>\<open>shared-scripts.js\<close> is an IEEE 754 binary64 value. A value is
  \<open>NaN\<close>, an infinity, the negative zero, or a finite rational \<open>Fin q\<close> (\<open>Fin 0\<close> is the
  positive zero). An arithmetic operation computes the exact rational result and rounds it
  to the nearest binary64 value, ties to even (\<open>round64\<close>); the special values follow the
  IEEE rules that ECMAScript adopts. The type holds every rational; the values that a
  program can hold are the \<open>representable\<close> ones, and every operation returns one.
\<close>

datatype number = NaN | PosInf | NegInf | NegZero | Fin rat

text \<open>\<open>ilog2 n\<close> is \<open>\<lfloor>log\<^sub>2 n\<rfloor>\<close> for \<open>n \<ge> 1\<close>, by repeated halving.\<close>

function ilog2 :: "int \<Rightarrow> int" where
  "ilog2 n = (if n \<le> 1 then 0 else 1 + ilog2 (n div 2))"
  by pat_completeness auto
termination
  by (relation "measure nat") auto

declare ilog2.simps [simp del]

definition pow2 :: "int \<Rightarrow> rat" where
  "pow2 k = (if 0 \<le> k then 2 ^ nat k else 1 / 2 ^ nat (- k))"

text \<open>\<open>clog2 n\<close> is \<open>\<lceil>log\<^sub>2 n\<rceil>\<close> for \<open>n \<ge> 1\<close>.\<close>

definition clog2 :: "int \<Rightarrow> int" where
  "clog2 n = (if n \<le> 1 then 0 else 1 + ilog2 (n - 1))"

text \<open>The binary exponent of a positive rational: \<open>2 ^ floor_log2 a \<le> a < 2 ^ (floor_log2 a + 1)\<close>.\<close>

definition floor_log2 :: "rat \<Rightarrow> int" where
  "floor_log2 a = (if 1 \<le> a then ilog2 \<lfloor>a\<rfloor> else - clog2 \<lceil>1 / a\<rceil>)"

definition ties_even :: "rat \<Rightarrow> int \<Rightarrow> int" where
  "ties_even x f =
     (if x - of_int f < 1 / 2 then f
      else if 1 / 2 < x - of_int f then f + 1
      else if even f then f else f + 1)"

definition round_half_even :: "rat \<Rightarrow> int" where
  "round_half_even x = ties_even x \<lfloor>x\<rfloor>"

text \<open>The multiple of the unit \<open>u\<close> nearest to \<open>a\<close>.\<close>

definition quantize :: "rat \<Rightarrow> rat \<Rightarrow> rat" where
  "quantize a u = of_int (round_half_even (a / u)) * u"

definition infinity :: "bool \<Rightarrow> number" where
  "infinity neg = (if neg then NegInf else PosInf)"

definition signed_zero :: "bool \<Rightarrow> number" where
  "signed_zero neg = (if neg then NegZero else Fin 0)"

text \<open>A rounded magnitude with its sign: overflow gives an infinity, underflow a signed zero.\<close>

definition pack :: "bool \<Rightarrow> rat \<Rightarrow> number" where
  "pack neg r =
     (if pow2 1024 \<le> r then infinity neg
      else if r = 0 then signed_zero neg
      else Fin (if neg then - r else r))"

text \<open>
  The exponent of the unit in the last place: 53 significant bits for a normal value, the
  fixed unit \<open>2 ^ - 1074\<close> in the subnormal range.
\<close>

definition ulp_exp :: "rat \<Rightarrow> int" where
  "ulp_exp a = (if floor_log2 a \<le> - 1022 then - 1074 else floor_log2 a - 52)"

definition round64 :: "rat \<Rightarrow> number" where
  "round64 q = pack (q < 0) (quantize \<bar>q\<bar> (pow2 (ulp_exp \<bar>q\<bar>)))"

text \<open>A finite value that is a binary64 value; the special values always are.\<close>

definition representable :: "number \<Rightarrow> bool" where
  "representable a = (case a of Fin q \<Rightarrow> round64 q = Fin q | _ \<Rightarrow> True)"

text \<open>A decimal literal of the source text, such as \<^verbatim>\<open>1.645\<close>, denotes the nearest binary64 value.\<close>

definition js_lit :: "rat \<Rightarrow> number" where
  "js_lit q = round64 q"

fun val :: "number \<Rightarrow> rat" where
  "val (Fin q) = q"
| "val _ = 0"

fun negative :: "number \<Rightarrow> bool" where
  "negative (Fin q) = (q < 0)"
| "negative NegZero = True"
| "negative NegInf = True"
| "negative _ = False"

definition is_zero :: "number \<Rightarrow> bool" where
  "is_zero a = (a = Fin 0 \<or> a = NegZero)"

definition is_inf :: "number \<Rightarrow> bool" where
  "is_inf a = (a = PosInf \<or> a = NegInf)"

definition is_finite :: "number \<Rightarrow> bool" where
  "is_finite a = (case a of Fin q \<Rightarrow> True | NegZero \<Rightarrow> True | _ \<Rightarrow> False)"

text \<open>The global \<^verbatim>\<open>isNaN\<close>, on an argument that is a number.\<close>

definition isNaN :: "number \<Rightarrow> bool" where
  "isNaN a = (a = NaN)"

definition Number_isInteger :: "number \<Rightarrow> bool" where
  "Number_isInteger a =
     (case a of Fin q \<Rightarrow> of_int \<lfloor>q\<rfloor> = q | NegZero \<Rightarrow> True | _ \<Rightarrow> False)"

fun js_negate :: "number \<Rightarrow> number" where
  "js_negate NaN = NaN"
| "js_negate PosInf = NegInf"
| "js_negate NegInf = PosInf"
| "js_negate NegZero = Fin 0"
| "js_negate (Fin q) = (if q = 0 then NegZero else Fin (- q))"

text \<open>\<^verbatim>\<open>a + b\<close>: an exact sum of zero is the positive zero unless both operands are \<open>-0\<close>.\<close>

definition js_add :: "number \<Rightarrow> number \<Rightarrow> number" where
  "js_add a b =
     (if a = NaN \<or> b = NaN then NaN
      else if is_inf a then (if is_inf b \<and> a \<noteq> b then NaN else a)
      else if is_inf b then b
      else if is_zero a \<and> is_zero b then signed_zero (a = NegZero \<and> b = NegZero)
      else if val a + val b = 0 then Fin 0
      else round64 (val a + val b))"

text \<open>\<^verbatim>\<open>a - b\<close> is \<^verbatim>\<open>a + (-b)\<close>.\<close>

definition js_sub :: "number \<Rightarrow> number \<Rightarrow> number" where
  "js_sub a b = js_add a (js_negate b)"

text \<open>\<^verbatim>\<open>a * b\<close>: the sign is the exclusive or of the signs; infinity times zero is \<open>NaN\<close>.\<close>

definition js_mul :: "number \<Rightarrow> number \<Rightarrow> number" where
  "js_mul a b =
     (if a = NaN \<or> b = NaN then NaN
      else if is_inf a \<or> is_inf b then
        (if is_zero a \<or> is_zero b then NaN else infinity (negative a \<noteq> negative b))
      else if is_zero a \<or> is_zero b then signed_zero (negative a \<noteq> negative b)
      else round64 (val a * val b))"

text \<open>
  \<^verbatim>\<open>a / b\<close>: nothing is raised on a zero divisor; a nonzero dividend gives a signed
  infinity, zero by zero and infinity by infinity give \<open>NaN\<close>.
\<close>

definition js_div :: "number \<Rightarrow> number \<Rightarrow> number" where
  "js_div a b =
     (if a = NaN \<or> b = NaN then NaN
      else if is_inf a then (if is_inf b then NaN else infinity (negative a \<noteq> negative b))
      else if is_inf b then signed_zero (negative a \<noteq> negative b)
      else if is_zero b then (if is_zero a then NaN else infinity (negative a \<noteq> negative b))
      else if is_zero a then signed_zero (negative a \<noteq> negative b)
      else round64 (val a / val b))"

text \<open>\<^verbatim>\<open>a < b\<close>, \<^verbatim>\<open>a > b\<close>, \<^verbatim>\<open>a >= b\<close>: false whenever an operand is \<open>NaN\<close>; the two zeros are equal.\<close>

definition js_lt :: "number \<Rightarrow> number \<Rightarrow> bool" where
  "js_lt a b =
     (a \<noteq> NaN \<and> b \<noteq> NaN \<and>
      (if a = NegInf then b \<noteq> NegInf
       else if b = PosInf then a \<noteq> PosInf
       else a \<noteq> PosInf \<and> b \<noteq> NegInf \<and> val a < val b))"

definition js_gt :: "number \<Rightarrow> number \<Rightarrow> bool" where
  "js_gt a b = js_lt b a"

definition js_ge :: "number \<Rightarrow> number \<Rightarrow> bool" where
  "js_ge a b = (a \<noteq> NaN \<and> b \<noteq> NaN \<and> \<not> js_lt a b)"

text \<open>
  \<^verbatim>\<open>Math.pow\<close> as ECMAScript specifies it (Number::exponentiate). The standard fixes the
  special cases and leaves the general case "implementation-approximated"; here an
  integral exponent gives the correctly rounded power, and \<open>approx\<close> stands for what the
  engine returns on a fractional exponent.
\<close>

definition odd_integer :: "number \<Rightarrow> bool" where
  "odd_integer e = (Number_isInteger e \<and> odd \<lfloor>val e\<rfloor>)"

definition Number_exponentiate :: "(rat \<Rightarrow> rat \<Rightarrow> number) \<Rightarrow> number \<Rightarrow> number \<Rightarrow> number" where
  "Number_exponentiate approx b e =
     (if e = NaN then NaN
      else if is_zero e then Fin 1
      else if b = NaN then NaN
      else if b = PosInf then (if js_gt e (Fin 0) then PosInf else Fin 0)
      else if b = NegInf then
        (if js_gt e (Fin 0) then (if odd_integer e then NegInf else PosInf)
         else (if odd_integer e then NegZero else Fin 0))
      else if b = Fin 0 then (if js_gt e (Fin 0) then Fin 0 else PosInf)
      else if b = NegZero then
        (if js_gt e (Fin 0) then (if odd_integer e then NegZero else Fin 0)
         else (if odd_integer e then NegInf else PosInf))
      else if e = PosInf then
        (if 1 < \<bar>val b\<bar> then PosInf else if \<bar>val b\<bar> = 1 then NaN else Fin 0)
      else if e = NegInf then
        (if 1 < \<bar>val b\<bar> then Fin 0 else if \<bar>val b\<bar> = 1 then NaN else PosInf)
      else if val b < 0 \<and> \<not> Number_isInteger e then NaN
      else if Number_isInteger e then round64 (val b powi \<lfloor>val e\<rfloor>)
      else approx (val b) (val e))"

section \<open>The platform\<close>

text \<open>
  What the script takes from its host and not from its own text: the locale-aware
  \<^verbatim>\<open>toLocaleString\<close> in the two ways the script calls it, \<^verbatim>\<open>Math.pow\<close>, and the
  conversion of a number to a string inside a template literal.
\<close>

record platform =
  toLocaleString_fixed :: "number \<Rightarrow> nat \<Rightarrow> string"
  toLocaleString_currency :: "number \<Rightarrow> string \<Rightarrow> string"
  Math_pow :: "number \<Rightarrow> number \<Rightarrow> number"
  Number_toString :: "number \<Rightarrow> string"

text \<open>
  An engine for the examples that go through \<^verbatim>\<open>Math.pow\<close>. Its \<^verbatim>\<open>Math.pow\<close> is
  \<open>Number_exponentiate\<close>; \<open>NaN\<close> stands for its results on fractional exponents and the
  empty string for what it prints, and no example reads either.
\<close>

definition reference_engine :: platform where
  "reference_engine =
     \<lparr> toLocaleString_fixed = (\<lambda>num decimals. []),
       toLocaleString_currency = (\<lambda>num currency. []),
       Math_pow = Number_exponentiate (\<lambda>base exponent. NaN),
       Number_toString = (\<lambda>num. []) \<rparr>"

section \<open>Formatting utilities\<close>

text \<open>\<^verbatim>\<open>formatNumber(num, decimals = 2)\<close>, lines 633-639.\<close>

definition formatNumber :: "platform \<Rightarrow> number \<Rightarrow> nat \<Rightarrow> string" where
  "formatNumber P num decimals =
     (if isNaN num then ''0.00'' else toLocaleString_fixed P num decimals)"

text \<open>\<^verbatim>\<open>formatPercentage(num, decimals = 2)\<close>, lines 647-650.\<close>

definition formatPercentage :: "platform \<Rightarrow> number \<Rightarrow> nat \<Rightarrow> string" where
  "formatPercentage P num decimals =
     (if isNaN num then ''0.00%'' else formatNumber P num decimals @ ''%'')"

text \<open>\<^verbatim>\<open>formatCurrency(num, currency = 'USD')\<close>, lines 658-664.\<close>

definition formatCurrency :: "platform \<Rightarrow> number \<Rightarrow> string \<Rightarrow> string" where
  "formatCurrency P num currency =
     (if isNaN num then ''$0.00'' else toLocaleString_currency P num currency)"

section \<open>Calculator functions\<close>

text \<open>
  The result object of a calculator. Every calculator sets \<^verbatim>\<open>value\<close>, \<^verbatim>\<open>formatted\<close> and
  \<^verbatim>\<open>isPositive\<close>; a property that a calculator does not set is \<open>None\<close>. The property
  \<^verbatim>\<open>value\<close> is the field \<open>result_value\<close>, \<^verbatim>\<open>interpretation\<close> the field
  \<open>interpretation_text\<close>; the parameters \<^verbatim>\<open>principal\<close> of \<^verbatim>\<open>calculateCompoundGrowth\<close> and
  \<^verbatim>\<open>value\<close> of \<^verbatim>\<open>calculateVaR\<close> are written \<open>principal_amount\<close> and \<open>amount\<close>.
\<close>

record calc_result =
  result_value :: number
  formatted :: string
  isPositive :: bool
  profit :: "string option"
  gain :: "string option"
  percentage :: "string option"
  interpretation_text :: "string option"

text \<open>\<^verbatim>\<open>calculateROI(initial, final)\<close>, lines 501-511.\<close>

definition calculateROI :: "platform \<Rightarrow> number \<Rightarrow> number \<Rightarrow> calc_result" where
  "calculateROI P initial final =
     (let profit_amount = js_sub final initial;
          roiPercent = js_mul (js_div profit_amount initial) (Fin 100)
      in \<lparr> result_value = roiPercent,
           formatted = formatPercentage P roiPercent 2,
           isPositive = js_ge roiPercent (Fin 0),
           profit = Some (formatCurrency P profit_amount ''USD''),
           gain = None,
           percentage = None,
           interpretation_text = None \<rparr>)"

text \<open>\<^verbatim>\<open>getSharpeInterpretation(sharpe)\<close>, lines 615-621.\<close>

definition getSharpeInterpretation :: "number \<Rightarrow> string" where
  "getSharpeInterpretation sharpe =
     (if js_lt sharpe (Fin 0) then ''Poor - Returns below risk-free rate''
      else if js_lt sharpe (Fin 1) then ''Acceptable - Moderate risk-adjusted returns''
      else if js_lt sharpe (Fin 2) then ''Good - Strong risk-adjusted returns''
      else if js_lt sharpe (Fin 3) then ''Very Good - Excellent risk-adjusted returns''
      else ''Exceptional - Outstanding risk-adjusted returns'')"

text \<open>\<^verbatim>\<open>calculateSharpeRatio(returns, riskFree, stdDev)\<close>, lines 520-529.\<close>

definition calculateSharpeRatio :: "platform \<Rightarrow> number \<Rightarrow> number \<Rightarrow> number \<Rightarrow> calc_result" where
  "calculateSharpeRatio P returns riskFree stdDev =
     (let sharpe = js_div (js_sub returns riskFree) stdDev
      in \<lparr> result_value = sharpe,
           formatted = formatNumber P sharpe 3,
           isPositive = js_ge sharpe (Fin 0),
           profit = None,
           gain = None,
           percentage = None,
           interpretation_text = Some (getSharpeInterpretation sharpe) \<rparr>)"

text \<open>\<^verbatim>\<open>calculateCompoundGrowth(principal, rate, time)\<close>, lines 538-548.\<close>

definition calculateCompoundGrowth :: "platform \<Rightarrow> number \<Rightarrow> number \<Rightarrow> number \<Rightarrow> calc_result" where
  "calculateCompoundGrowth P principal_amount rate time =
     (let finalAmount = js_mul principal_amount (Math_pow P (js_add (Fin 1) (js_div rate (Fin 100))) time);
          totalGain = js_sub finalAmount principal_amount
      in \<lparr> result_value = finalAmount,
           formatted = formatCurrency P finalAmount ''USD'',
           isPositive = js_ge totalGain (Fin 0),
           profit = None,
           gain = Some (formatCurrency P totalGain ''USD''),
           percentage = None,
           interpretation_text = None \<rparr>)"

text \<open>
  The table \<^verbatim>\<open>zScores\<close> of \<^verbatim>\<open>calculateVaR\<close>, read at \<^verbatim>\<open>zScores[confidence]\<close>. The property
  key is the string of the number, so the three entries are found at the numbers 90, 95
  and 99 and nowhere else.
\<close>

definition zScores :: "number \<Rightarrow> number option" where
  "zScores confidence =
     (if confidence = Fin 90 then Some (js_lit (128 / 100))
      else if confidence = Fin 95 then Some (js_lit (1645 / 1000))
      else if confidence = Fin 99 then Some (js_lit (233 / 100))
      else None)"

text \<open>
  \<^verbatim>\<open>calculateVaR(value, confidence, volatility)\<close>, lines 557-574. The three table entries
  are truthy, so \<^verbatim>\<open>zScores[confidence] || 1.645\<close> takes the default exactly when the key
  is absent.
\<close>

definition calculateVaR :: "platform \<Rightarrow> number \<Rightarrow> number \<Rightarrow> number \<Rightarrow> calc_result" where
  "calculateVaR P amount confidence volatility =
     (let zScore = (case zScores confidence of Some z \<Rightarrow> z | None \<Rightarrow> js_lit (1645 / 1000));
          var95 = js_mul (js_mul amount volatility) zScore
      in \<lparr> result_value = var95,
           formatted = formatCurrency P var95 ''USD'',
           isPositive = False,
           profit = None,
           gain = None,
           percentage = Some (formatPercentage P (js_mul (js_div var95 amount) (Fin 100)) 2),
           interpretation_text = None \<rparr>)"

section \<open>Strings\<close>

text \<open>
  A string is a list of code units; the model covers the code units \<open>U+0000\<close> to
  \<open>U+00FF\<close>, one \<^typ>\<open>char\<close> each. In that range the white space and line terminators
  that \<^verbatim>\<open>String.prototype.trim\<close> and \<^verbatim>\<open>parseFloat\<close> strip are TAB, LF, VT, FF, CR, the
  space and the no-break space, and \<^verbatim>\<open>toLowerCase\<close> maps \<open>A\<close>-\<open>Z\<close> and the capital
  letters \<open>U+00C0\<close>-\<open>U+00DE\<close> (but not the multiplication sign \<open>U+00D7\<close>) to the code unit
  32 above, which sets the bit of weight 32.
\<close>

definition is_ws :: "char \<Rightarrow> bool" where
  "is_ws c = (of_char c \<in> {9, 10, 11, 12, 13, 32, 160 :: nat})"

definition trim :: "string \<Rightarrow> string" where
  "trim s = rev (dropWhile is_ws (rev (dropWhile is_ws s)))"

definition lower_char :: "char \<Rightarrow> char" where
  "lower_char c =
     (if (65 \<le> (of_char c :: nat) \<and> (of_char c :: nat) \<le> 90) \<or>
         (192 \<le> (of_char c :: nat) \<and> (of_char c :: nat) \<le> 222 \<and> (of_char c :: nat) \<noteq> 215)
      then (case c of Char b0 b1 b2 b3 b4 b5 b6 b7 \<Rightarrow> Char b0 b1 b2 b3 b4 True b6 b7)
      else c)"

definition toLowerCase :: "string \<Rightarrow> string" where
  "toLowerCase s = map lower_char s"

text \<open>The decimal digits of a natural number, as a template literal prints a counter.\<close>

function show_nat :: "nat \<Rightarrow> string" where
  "show_nat n =
     (if n < 10 then [''0123456789'' ! n]
      else show_nat (n div 10) @ [''0123456789'' ! (n mod 10)])"
  by pat_completeness auto
termination
  by (relation "measure id") auto

declare show_nat.simps [simp del]

subsection \<open>\<^verbatim>\<open>parseFloat\<close>\<close>

text \<open>
  \<^verbatim>\<open>parseFloat\<close> skips leading white space, takes the longest prefix that is a
  \<^verbatim>\<open>StrDecimalLiteral\<close> (a sign, then \<^verbatim>\<open>Infinity\<close> or digits with an optional fraction and
  an optional exponent) and returns its value rounded to binary64, or \<open>NaN\<close> when no
  prefix is one.
\<close>

definition is_digit :: "char \<Rightarrow> bool" where
  "is_digit c = (48 \<le> (of_char c :: nat) \<and> (of_char c :: nat) \<le> 57)"

definition decimal :: "string \<Rightarrow> nat" where
  "decimal ds = foldl (\<lambda>n c. 10 * n + ((of_char c :: nat) - 48)) 0 ds"

definition pow10 :: "int \<Rightarrow> rat" where
  "pow10 k = (if 0 \<le> k then 10 ^ nat k else 1 / 10 ^ nat (- k))"

text \<open>
  The exponent part belongs to the prefix only when a digit follows \<open>e\<close> and its sign;
  without a digit the exponent is zero, as without an exponent part.
\<close>

definition signed_integer :: "string \<Rightarrow> int" where
  "signed_integer r =
     (case r of
        [] \<Rightarrow> 0
      | c # ds \<Rightarrow>
          if c = CHR ''-'' then - int (decimal (takeWhile is_digit ds))
          else if c = CHR ''+'' then int (decimal (takeWhile is_digit ds))
          else int (decimal (takeWhile is_digit r)))"

definition exponent_part :: "string \<Rightarrow> int" where
  "exponent_part s =
     (case s of
        [] \<Rightarrow> 0
      | c # r \<Rightarrow> if c = CHR ''e'' \<or> c = CHR ''E'' then signed_integer r else 0)"

definition to_number :: "bool \<Rightarrow> rat \<Rightarrow> number" where
  "to_number neg m = (if m = 0 then signed_zero neg else round64 (if neg then - m else m))"

definition parse_exponent :: "bool \<Rightarrow> string \<Rightarrow> string \<Rightarrow> string \<Rightarrow> number" where
  "parse_exponent neg ds fs rest =
     (if ds = [] \<and> fs = [] then NaN
      else to_number neg
             (of_nat (decimal (ds @ fs)) * pow10 (exponent_part rest - int (length fs))))"

definition parse_fraction :: "bool \<Rightarrow> string \<Rightarrow> string \<Rightarrow> number" where
  "parse_fraction neg ds rest =
     (case rest of
        [] \<Rightarrow> parse_exponent neg ds [] []
      | c # r \<Rightarrow>
          if c = CHR ''.'' then parse_exponent neg ds (takeWhile is_digit r) (dropWhile is_digit r)
          else parse_exponent neg ds [] rest)"

definition parse_unsigned :: "bool \<Rightarrow> string \<Rightarrow> number" where
  "parse_unsigned neg u =
     (if take 8 u = ''Infinity'' then infinity neg
      else parse_fraction neg (takeWhile is_digit u) (dropWhile is_digit u))"

definition parse_signed :: "string \<Rightarrow> number" where
  "parse_signed t =
     (case t of
        [] \<Rightarrow> NaN
      | c # r \<Rightarrow>
          if c = CHR ''-'' then parse_unsigned True r
          else if c = CHR ''+'' then parse_unsigned False r
          else parse_unsigned False t)"

definition parseFloat :: "string \<Rightarrow> number" where
  "parseFloat inputString = parse_signed (dropWhile is_ws inputString)"

section \<open>Numeric input validation\<close>

text \<open>
  The options object of \<^verbatim>\<open>validateNumericInput\<close>; a property that the caller leaves out
  is \<open>None\<close> and takes the default of the destructuring pattern.
\<close>

record validation_options =
  min_opt :: "number option"
  max_opt :: "number option"
  allowNegative :: "bool option"
  allowDecimal :: "bool option"

definition no_options :: validation_options where
  "no_options = \<lparr> min_opt = None, max_opt = None, allowNegative = None, allowDecimal = None \<rparr>"

text \<open>
  The result object: \<^verbatim>\<open>{ valid: false, error }\<close> or \<^verbatim>\<open>{ valid: true, value }\<close>.
\<close>

record validation_result =
  valid :: bool
  error :: "string option"
  valid_value :: "number option"

definition invalid :: "string \<Rightarrow> validation_result" where
  "invalid msg = \<lparr> valid = False, error = Some msg, valid_value = None \<rparr>"

text \<open>\<^verbatim>\<open>validateNumericInput(value, options = {})\<close>, lines 672-703.\<close>

definition validateNumericInput :: "platform \<Rightarrow> string \<Rightarrow> validation_options \<Rightarrow> validation_result" where
  "validateNumericInput P input options =
     (let lo = (case min_opt options of Some m \<Rightarrow> m | None \<Rightarrow> NegInf);
          hi = (case max_opt options of Some m \<Rightarrow> m | None \<Rightarrow> PosInf);
          allow_negative = (case allowNegative options of Some b \<Rightarrow> b | None \<Rightarrow> True);
          allow_decimal = (case allowDecimal options of Some b \<Rightarrow> b | None \<Rightarrow> True);
          num = parseFloat input
      in if isNaN num then invalid ''Please enter a valid number''
         else if \<not> allow_negative \<and> js_lt num (Fin 0) then
           invalid ''Negative values are not allowed''
         else if \<not> allow_decimal \<and> \<not> Number_isInteger num then
           invalid ''Please enter a whole number''
         else if js_lt num lo then
           invalid (''Value must be at least '' @ Number_toString P lo)
         else if js_gt num hi then
           invalid (''Value must be at most '' @ Number_toString P hi)
         else \<lparr> valid = True, error = None, valid_value = Some num \<rparr>)"

text \<open>
  The same function in the words of the specification: five checks in a fixed order, each
  with its reason, and the first check that fails decides.
\<close>

definition validation_checks ::
  "platform \<Rightarrow> validation_options \<Rightarrow> ((number \<Rightarrow> bool) \<times> string) list" where
  "validation_checks P options =
     [(\<lambda>n. isNaN n, ''Please enter a valid number''),
      (\<lambda>n. allowNegative options = Some False \<and> js_lt n (Fin 0),
         ''Negative values are not allowed''),
      (\<lambda>n. allowDecimal options = Some False \<and> \<not> Number_isInteger n,
         ''Please enter a whole number''),
      (\<lambda>n. js_lt n (case min_opt options of Some m \<Rightarrow> m | None \<Rightarrow> NegInf),
         ''Value must be at least '' @
           Number_toString P (case min_opt options of Some m \<Rightarrow> m | None \<Rightarrow> NegInf)),
      (\<lambda>n. js_gt n (case max_opt options of Some m \<Rightarrow> m | None \<Rightarrow> PosInf),
         ''Value must be at most '' @
           Number_toString P (case max_opt options of Some m \<Rightarrow> m | None \<Rightarrow> PosInf))]"

definition first_failure :: "((number \<Rightarrow> bool) \<times> string) list \<Rightarrow> number \<Rightarrow> string option" where
  "first_failure checks n = map_option snd (find (\<lambda>(failing, reason). failing n) checks)"

definition validate_spec :: "platform \<Rightarrow> string \<Rightarrow> validation_options \<Rightarrow> validation_result" where
  "validate_spec P input options =
     (case first_failure (validation_checks P options) (parseFloat input) of
        Some reason \<Rightarrow> \<lparr> valid = False, error = Some reason, valid_value = None \<rparr>
      | None \<Rightarrow> \<lparr> valid = True, error = None, valid_value = Some (parseFloat input) \<rparr>)"

section \<open>Quiz state\<close>

text \<open>
  The score record that \<^verbatim>\<open>initializeQuizzes\<close> creates for a quiz (lines 164-168):
  the counters \<^verbatim>\<open>total\<close> and \<^verbatim>\<open>correct\<close> and the set \<^verbatim>\<open>answered\<close> of question identifiers.
  A counter grows by one for a question of the page, so it stays far below \<open>2\<^sup>5\<^sup>3\<close>, where
  a JavaScript number stops counting; the counters are natural numbers here.
\<close>

record score_data =
  total :: nat
  correct :: nat
  answered :: "string set"

text \<open>
  The part of the document that the quiz functions read and write. An input element
  carries its value and its \<^verbatim>\<open>data-correct-answer\<close>, \<^verbatim>\<open>data-question-id\<close> and
  \<^verbatim>\<open>data-explanation\<close> attributes (\<open>None\<close> when the attribute is absent), its class list,
  two style properties and the \<^verbatim>\<open>disabled\<close> flag.
\<close>

record input_el =
  in_value :: string
  in_correctAnswer :: "string option"
  in_questionId :: "string option"
  in_explanation :: "string option"
  in_classes :: "string list"
  in_borderColor :: string
  in_background :: string
  in_disabled :: bool

record feedback_el =
  fb_className :: string
  fb_message :: string
  fb_color :: string
  fb_explanation :: "string option"
  fb_background :: string

text \<open>
  A quiz container: its \<^verbatim>\<open>data-quiz-id\<close>, the \<^verbatim>\<open>data-correct\<close> attribute of each
  \<^verbatim>\<open>.quiz-option\<close> descendant, its \<^verbatim>\<open>.quiz-input\<close> descendants in document order, its
  \<^verbatim>\<open>.quiz-feedback\<close> blocks, the number of its \<^verbatim>\<open>.quiz-celebration\<close> panels, the text and
  colour of its first \<^verbatim>\<open>.quiz-score\<close> element and the \<^verbatim>\<open>disabled\<close> flag of its first
  \<^verbatim>\<open>.quiz-submit\<close> element, when it has them.
\<close>

record quiz_container =
  quizId :: "string option"
  quizOptions :: "string option list"
  inputs :: "input_el list"
  feedback :: "feedback_el list"
  celebrations :: nat
  scoreDisplay :: "(string \<times> string) option"
  submitDisabled :: "bool option"

text \<open>
  \<^verbatim>\<open>AppState.quizScores\<close>, the quiz containers of the document in document order, and
  the number of confetti particles scheduled so far. A handler receives its container as
  an index into the document, below the length of the document. The elements of the
  document that carry a \<^verbatim>\<open>data-quiz-id\<close> attribute are these containers, none inside
  another.
\<close>

record app =
  quizScores :: "string \<rightharpoonup> score_data"
  containers :: "quiz_container list"
  confetti :: nat

text \<open>
  The score records are the own properties of the plain object \<^verbatim>\<open>AppState.quizScores\<close>.
  Reading a property that the object does not own gives \<^verbatim>\<open>undefined\<close>, except for the
  names that \<^verbatim>\<open>Object.prototype\<close> defines: there the read gives a function or the
  prototype itself, a truthy object without the fields of a score record.
\<close>

definition object_prototype_keys :: "string list" where
  "object_prototype_keys =
     [''constructor'', ''__proto__'', ''hasOwnProperty'', ''isPrototypeOf'',
      ''propertyIsEnumerable'', ''toLocaleString'', ''toString'', ''valueOf'',
      ''__defineGetter__'', ''__defineSetter__'', ''__lookupGetter__'', ''__lookupSetter__'']"

text \<open>
  An exception ends the running handler; what the handler has written by then stays, so
  a failure carries the page as it is when the exception is raised. A handler also stops
  where it builds a selector that is more than a test of the \<^verbatim>\<open>data-quiz-id\<close> attribute:
  what such a selector finds depends on parts of the document that the page above does
  not hold, and the model says no more than that the handler has come this far.
\<close>

datatype js_error = TypeError | SyntaxError

datatype halt = Throws js_error | Unmodelled

type_synonym outcome = "(halt \<times> app) + app"

text \<open>\<^verbatim>\<open>querySelector\<close>: the position of the first element that matches.\<close>

fun find_index :: "('a \<Rightarrow> bool) \<Rightarrow> 'a list \<Rightarrow> nat option" where
  "find_index p [] = None"
| "find_index p (x # xs) = (if p x then Some 0 else map_option Suc (find_index p xs))"

text \<open>An absent \<^verbatim>\<open>dataset\<close> value used as a property key or in a template is \<^verbatim>\<open>undefined\<close>.\<close>

definition key_of :: "string option \<Rightarrow> string" where
  "key_of v = (case v of None \<Rightarrow> ''undefined'' | Some s \<Rightarrow> s)"

text \<open>\<^verbatim>\<open>a || b\<close> on a string that may be absent: the empty string is falsy too.\<close>

definition or_else :: "string option \<Rightarrow> string \<Rightarrow> string" where
  "or_else v d = (case v of None \<Rightarrow> d | Some s \<Rightarrow> if s = [] then d else s)"

subsection \<open>The selector of a quiz\<close>

text \<open>
  Lines 321 and 337 write the quiz identifier between double quotes into a selector,
  \<^verbatim>\<open>[data-quiz-id="${quizId}"] .quiz-score\<close> and \<^verbatim>\<open>[data-quiz-id="${quizId}"]\<close>, and
  \<^verbatim>\<open>document.querySelector\<close> reads the text back by the rules of CSS. Its input is a
  stream of code points: CR, FF and the pair CR LF become one LF, and \<open>U+0000\<close> becomes
  \<open>U+FFFD\<close>.
\<close>

definition filter_code_point :: "char \<Rightarrow> nat" where
  "filter_code_point c =
     (if c = CHR 0x0D \<or> c = CHR 0x0C then 0x0A
      else if c = CHR 0x00 then 0xFFFD
      else of_char c)"

fun filter_code_points :: "string \<Rightarrow> nat list" where
  "filter_code_points (c # d # cs) =
     (if c = CHR 0x0D \<and> d = CHR 0x0A then 0x0A # filter_code_points cs
      else filter_code_point c # filter_code_points (d # cs))"
| "filter_code_points [c] = [filter_code_point c]"
| "filter_code_points [] = []"

definition is_whitespace :: "nat \<Rightarrow> bool" where
  "is_whitespace c = (c = 0x0A \<or> c = 0x09 \<or> c = 0x20)"

definition is_hex_digit :: "nat \<Rightarrow> bool" where
  "is_hex_digit c =
     ((0x30 \<le> c \<and> c \<le> 0x39) \<or> (0x41 \<le> c \<and> c \<le> 0x46) \<or> (0x61 \<le> c \<and> c \<le> 0x66))"

definition hex_digit :: "nat \<Rightarrow> nat" where
  "hex_digit c = (if c \<le> 0x39 then c - 0x30 else if c \<le> 0x46 then c - 0x37 else c - 0x57)"

definition hex_number :: "nat list \<Rightarrow> nat" where
  "hex_number ds = foldl (\<lambda>n d. 16 * n + hex_digit d) 0 ds"

text \<open>
  An escape, read after its backslash when no line break follows: one to six
  hexadecimal digits and one white space after them name a code point (\<open>U+FFFD\<close> for
  zero, a surrogate or a number above \<open>U+10FFFF\<close>); any other code point stands for
  itself. The result is the code point and the input that is left.
\<close>

definition consume_escaped :: "nat list \<Rightarrow> nat \<times> nat list" where
  "consume_escaped input =
     (case input of
        [] \<Rightarrow> (0xFFFD, [])
      | c # cs \<Rightarrow>
          if is_hex_digit c then
            let digits = takeWhile is_hex_digit (take 6 input);
                n = hex_number digits;
                after = drop (length digits) input
            in (if n = 0 \<or> (0xD800 \<le> n \<and> n \<le> 0xDFFF) \<or> 0x10FFFF < n then 0xFFFD else n,
                case after of
                  [] \<Rightarrow> []
                | s # rest \<Rightarrow> if is_whitespace s then rest else after)
          else (c, cs))"

text \<open>
  A string between double quotes, read after the opening quote: the next double quote
  ends it, a line break makes it a bad string, a backslash before a line break is
  dropped with the line break, and any other backslash starts an escape. A string that
  the end of the input cuts off is a string all the same.
\<close>

datatype string_token = String_token "nat list" "nat list" | Bad_string | Unterminated "nat list"

function consume_string :: "nat list \<Rightarrow> nat list \<Rightarrow> string_token" where
  "consume_string str [] = Unterminated str"
| "consume_string str (c # cs) =
     (if c = 0x22 then String_token str cs
      else if c = 0x0A then Bad_string
      else if c = 0x5C then
        (case cs of
           [] \<Rightarrow> Unterminated str
         | d # ds \<Rightarrow>
             if d = 0x0A then consume_string str ds
             else consume_string (str @ [fst (consume_escaped cs)]) (snd (consume_escaped cs)))
      else consume_string (str @ [c]) cs)"
  by pat_completeness auto
termination
proof (relation "measure (\<lambda>(str, input). length input)", goal_cases)
  case 1
  show ?case by simp
next
  case (2 str c cs d ds)
  then show ?case by simp
next
  case (3 str c cs d ds)
  have "length (snd (consume_escaped (d # ds))) \<le> length ds"
  proof (cases "is_hex_digit d")
    case True
    then have "takeWhile is_hex_digit (take 6 (d # ds)) = d # takeWhile is_hex_digit (take 5 ds)"
      by simp
    then show ?thesis
      using True by (simp add: consume_escaped_def Let_def split: list.splits)
         (metis drop_Suc_Cons length_drop diff_le_self le_SucI length_Cons Suc_le_mono le_trans)
  next
    case False
    then show ?thesis by (simp add: consume_escaped_def)
  qed
  with 3 show ?case by simp
next
  case (4 str c cs)
  then show ?case by simp
qed

text \<open>
  What the selector \<^verbatim>\<open>[data-quiz-id="${quizId}"\<close> followed by \<open>tail\<close> is. When the string
  ends at the quote of the template, the selector tests the attribute against the
  string. A bad string is no selector, and \<^verbatim>\<open>querySelector\<close> raises a \<^verbatim>\<open>SyntaxError\<close>. When
  a quote of the identifier ends the string early, the attribute test can only go on
  with white space, a comment, the flag \<^verbatim>\<open>i\<close> or \<^verbatim>\<open>s\<close> (written out or escaped) or the
  closing bracket; after anything else the text is no selector either. What is left, a
  selector that the identifier continues behind its quote or a string that runs to the
  end of the text, is more than a test of this attribute.
\<close>

datatype selector = Attribute_equals "nat list" | Invalid | Other

definition quiz_selector :: "string \<Rightarrow> string \<Rightarrow> selector" where
  "quiz_selector q tail =
     (case consume_string [] (filter_code_points (q @ CHR 0x22 # tail)) of
        Bad_string \<Rightarrow> Invalid
      | Unterminated str \<Rightarrow> Other
      | String_token str rest \<Rightarrow>
          if rest = map of_char tail then Attribute_equals str
          else (case dropWhile is_whitespace rest of
                  [] \<Rightarrow> Other
                | c # cs \<Rightarrow>
                    if c \<in> {0x5D, 0x2F, 0x5C, 0x69, 0x49, 0x73, 0x53} then Other else Invalid))"

text \<open>An element matches the attribute test when its \<^verbatim>\<open>data-quiz-id\<close> is the string.\<close>

definition has_id :: "nat list \<Rightarrow> quiz_container \<Rightarrow> bool" where
  "has_id str c = (case quizId c of None \<Rightarrow> False | Some s \<Rightarrow> map of_char s = str)"

text \<open>
  The code units that a string between double quotes takes as they are: all but the
  double quote, the backslash, LF, CR, FF and \<open>U+0000\<close>.
\<close>

definition css_plain :: "char \<Rightarrow> bool" where
  "css_plain c = (c \<notin> {CHR 0x22, CHR 0x5C, CHR 0x0A, CHR 0x0D, CHR 0x0C, CHR 0x00})"

text \<open>
  \<^verbatim>\<open>initializeQuizzes\<close>, lines 155-169, for the container at position \<open>index\<close>. A record
  is made when the read of line 163 is falsy: not for an identifier that has a record,
  and not for a name of \<^verbatim>\<open>Object.prototype\<close>.
\<close>

definition initializeQuiz :: "app \<Rightarrow> nat \<Rightarrow> app" where
  "initializeQuiz w index =
     (let quiz = containers w ! index;
          qid = or_else (quizId quiz) (''quiz-'' @ show_nat index);
          w1 = w\<lparr>containers := (containers w)[index := quiz\<lparr>quizId := Some qid\<rparr>]\<rparr>
      in case quizScores w1 qid of
           Some sd \<Rightarrow> w1
         | None \<Rightarrow>
             if qid \<in> set object_prototype_keys then w1
             else w1\<lparr>quizScores := (quizScores w1)(qid \<mapsto>
                    \<lparr> total = 0, correct = 0, answered = {} \<rparr>)\<rparr>)"

definition initializeQuizzes :: "app \<Rightarrow> app" where
  "initializeQuizzes w = fold (\<lambda>index w'. initializeQuiz w' index) [0..<length (containers w)] w"

text \<open>A quiz below the position \<open>k\<close> has an identifier and a score record.\<close>

definition initialized :: "nat \<Rightarrow> app \<Rightarrow> bool" where
  "initialized k w =
     (\<forall>j < k. \<exists>q sd. quizId (containers w ! j) = Some q \<and> quizScores w q = Some sd)"

text \<open>No quiz of the document is named like a property of \<^verbatim>\<open>Object.prototype\<close>.\<close>

definition own_ids :: "app \<Rightarrow> bool" where
  "own_ids w =
     list_all (\<lambda>c. case quizId c of None \<Rightarrow> True | Some q \<Rightarrow> q \<notin> set object_prototype_keys)
       (containers w)"

text \<open>
  \<^verbatim>\<open>triggerConfetti\<close>, lines 387-421, schedules fifty particles.
\<close>

definition triggerConfetti :: "app \<Rightarrow> app" where
  "triggerConfetti w = w\<lparr>confetti := confetti w + 50\<rparr>"

text \<open>
  \<^verbatim>\<open>showCelebration(quizContainer)\<close>, lines 352-382: the first existing panel is
  removed, a new one is appended, and the confetti is triggered.
\<close>

definition showCelebration :: "app \<Rightarrow> nat \<Rightarrow> app" where
  "showCelebration w i =
     (let c = containers w ! i;
          remaining = (if 0 < celebrations c then celebrations c - 1 else celebrations c)
      in triggerConfetti
           (w\<lparr>containers := (containers w)[i := c\<lparr>celebrations := remaining + 1\<rparr>]\<rparr>))"

text \<open>
  The elements that the selector
  \<^verbatim>\<open>.quiz-option[data-correct], .quiz-input[data-correct-answer]\<close> matches inside a container.
\<close>

definition gradable :: "quiz_container \<Rightarrow> nat" where
  "gradable c =
     length (filter (\<lambda>a. a \<noteq> None) (quizOptions c)) +
     length (filter (\<lambda>x. in_correctAnswer x \<noteq> None) (inputs c))"

text \<open>
  \<^verbatim>\<open>checkQuizCompletion(quizId)\<close>, lines 335-346. The selector of line 337 finds the
  first element with the identifier; without one nothing is read from the score record.
  With one, a read of line 336 that gave \<^verbatim>\<open>undefined\<close> raises a \<^verbatim>\<open>TypeError\<close> on line 343,
  and one that gave a property of \<^verbatim>\<open>Object.prototype\<close> has no \<^verbatim>\<open>correct\<close> field, which
  equals no count.
\<close>

definition checkQuizCompletion :: "app \<Rightarrow> string \<Rightarrow> outcome" where
  "checkQuizCompletion w q =
     (case quiz_selector q '']'' of
        Invalid \<Rightarrow> Inl (Throws SyntaxError, w)
      | Other \<Rightarrow> Inl (Unmodelled, w)
      | Attribute_equals str \<Rightarrow>
          (case find_index (has_id str) (containers w) of
             None \<Rightarrow> Inr w
           | Some i \<Rightarrow>
               (case quizScores w q of
                  None \<Rightarrow>
                    if q \<in> set object_prototype_keys then Inr w
                    else Inl (Throws TypeError, w)
                | Some scoreData \<Rightarrow>
                    if correct scoreData = gradable (containers w ! i) \<and> 0 < correct scoreData
                    then Inr (showCelebration w i)
                    else Inr w)))"

text \<open>
  The first block of \<^verbatim>\<open>updateQuizScore\<close>, lines 311-318: a question counts once.
\<close>

definition count_answer :: "score_data \<Rightarrow> string \<Rightarrow> bool \<Rightarrow> score_data" where
  "count_answer scoreData questionId isCorrect =
     (if questionId \<notin> answered scoreData then
        scoreData\<lparr> total := total scoreData + 1,
                   correct := (if isCorrect then correct scoreData + 1 else correct scoreData),
                   answered := insert questionId (answered scoreData) \<rparr>
      else scoreData)"

text \<open>
  The second block, lines 320-325, for a selector that tests the attribute against
  \<open>str\<close>: the first \<^verbatim>\<open>.quiz-score\<close> element inside an element with this identifier shows the
  score, green when every counted answer is correct.
\<close>

definition refresh_score :: "app \<Rightarrow> nat list \<Rightarrow> score_data \<Rightarrow> app" where
  "refresh_score w str scoreData =
     (case find_index (\<lambda>c. has_id str c \<and> scoreDisplay c \<noteq> None) (containers w) of
        None \<Rightarrow> w
      | Some i \<Rightarrow>
          w\<lparr>containers := (containers w)[i := (containers w ! i)\<lparr>scoreDisplay :=
              Some (''Score: '' @ show_nat (correct scoreData) @ ''/'' @ show_nat (total scoreData),
                    if correct scoreData = total scoreData then ''#10b981'' else ''#3b82f6'')\<rparr>]\<rparr>)"

text \<open>
  \<^verbatim>\<open>updateQuizScore(quizId, questionId, isCorrect)\<close>, lines 308-329. Without a score
  record \<^verbatim>\<open>scoreData\<close> is undefined, or for a name of \<^verbatim>\<open>Object.prototype\<close> an object
  without the field \<^verbatim>\<open>answered\<close>, and line 312 raises a \<^verbatim>\<open>TypeError\<close>. The answer is
  counted before the selector of line 321 is built, so a \<^verbatim>\<open>SyntaxError\<close> leaves the record
  counted and the rest of the function undone.
\<close>

definition updateQuizScore :: "app \<Rightarrow> string \<Rightarrow> string \<Rightarrow> bool \<Rightarrow> outcome" where
  "updateQuizScore w q questionId isCorrect =
     (case quizScores w q of
        None \<Rightarrow> Inl (Throws TypeError, w)
      | Some scoreData \<Rightarrow>
          (case quiz_selector q ''] .quiz-score'' of
             Invalid \<Rightarrow>
               Inl (Throws SyntaxError,
                    w\<lparr>quizScores := (quizScores w)(q \<mapsto> count_answer scoreData questionId isCorrect)\<rparr>)
           | Other \<Rightarrow>
               Inl (Unmodelled,
                    w\<lparr>quizScores := (quizScores w)(q \<mapsto> count_answer scoreData questionId isCorrect)\<rparr>)
           | Attribute_equals str \<Rightarrow>
               checkQuizCompletion
                 (refresh_score
                    (w\<lparr>quizScores := (quizScores w)(q \<mapsto> count_answer scoreData questionId isCorrect)\<rparr>)
                    str (count_answer scoreData questionId isCorrect))
                 q))"

text \<open>
  A sequence of grading events \<open>(quiz, question, correct)\<close>; it ends with the first event
  whose handler does not return.
\<close>

fun updates :: "app \<Rightarrow> (string \<times> string \<times> bool) list \<Rightarrow> outcome" where
  "updates w [] = Inr w"
| "updates w ((q, questionId, isCorrect) # events) =
     (case updateQuizScore w q questionId isCorrect of
        Inl e \<Rightarrow> Inl e
      | Inr w' \<Rightarrow> updates w' events)"

text \<open>
  The score record after each of the statements \<^verbatim>\<open>scoreData.total++\<close>,
  \<^verbatim>\<open>scoreData.correct++\<close> (when the answer is correct) and
  \<^verbatim>\<open>scoreData.answered.add(questionId)\<close>, in this order; no statement runs for a question
  that is already counted.
\<close>

definition count_answer_steps :: "score_data \<Rightarrow> string \<Rightarrow> bool \<Rightarrow> score_data list" where
  "count_answer_steps scoreData questionId isCorrect =
     (if questionId \<notin> answered scoreData then
        [scoreData\<lparr>total := total scoreData + 1\<rparr>,
         scoreData\<lparr>total := total scoreData + 1,
                   correct := (if isCorrect then correct scoreData + 1 else correct scoreData)\<rparr>,
         scoreData\<lparr>total := total scoreData + 1,
                   correct := (if isCorrect then correct scoreData + 1 else correct scoreData),
                   answered := insert questionId (answered scoreData)\<rparr>]
      else [])"

text \<open>Every score record has at most as many correct answers as answers.\<close>

definition scores_ok :: "app \<Rightarrow> bool" where
  "scores_ok w = (\<forall>q sd. quizScores w q = Some sd \<longrightarrow> correct sd \<le> total sd)"

text \<open>The question identifiers that a sequence of events grades in the quiz \<open>q\<close>.\<close>

definition graded :: "string \<Rightarrow> (string \<times> string \<times> bool) list \<Rightarrow> string set" where
  "graded q events = set (map (\<lambda>e. fst (snd e)) (filter (\<lambda>e. fst e = q) events))"


text \<open>
  \<^verbatim>\<open>showQuizFeedback(quizContainer, isCorrect, explanation = '')\<close>, lines 272-300: the
  first existing feedback block is removed and a new one is appended; the paragraph with
  the explanation is present when the explanation is not empty. The block is written as
  markup (\<^verbatim>\<open>innerHTML\<close>), and \<open>fb_explanation\<close> is the explanation as the template puts
  it into that markup; the elements that the host makes of tags inside an explanation
  are not part of the page above.
\<close>

definition showQuizFeedback :: "app \<Rightarrow> nat \<Rightarrow> bool \<Rightarrow> string option \<Rightarrow> app" where
  "showQuizFeedback w i isCorrect explanation =
     (let c = containers w ! i;
          block = \<lparr> fb_className = ''quiz-feedback '' @ (if isCorrect then ''correct'' else ''incorrect''),
                    fb_message = (if isCorrect then ''Correct!'' else ''Incorrect''),
                    fb_color = (if isCorrect then ''#10b981'' else ''#ef4444''),
                    fb_explanation = (case explanation of
                                        None \<Rightarrow> None
                                      | Some e \<Rightarrow> if e = [] then None else Some e),
                    fb_background = (if isCorrect then ''rgba(16, 185, 129, 0.1)''
                                     else ''rgba(239, 68, 68, 0.1)'') \<rparr>
      in w\<lparr>containers := (containers w)[i := c\<lparr>feedback :=
            (case feedback c of [] \<Rightarrow> [] | old # others \<Rightarrow> others) @ [block]\<rparr>]\<rparr>)"

text \<open>\<^verbatim>\<open>classList.add\<close>: a token that is present is not added again.\<close>

definition add_class :: "string \<Rightarrow> string list \<Rightarrow> string list" where
  "add_class token tokens = (if token \<in> set tokens then tokens else tokens @ [token])"

text \<open>The last three statements of \<^verbatim>\<open>handleQuizSubmit\<close>, lines 260-263.\<close>

definition disable_input :: "app \<Rightarrow> nat \<Rightarrow> app" where
  "disable_input w i =
     (let c = containers w ! i
      in w\<lparr>containers := (containers w)[i := c\<lparr>
            inputs := (case inputs c of [] \<Rightarrow> [] | x # xs \<Rightarrow> x\<lparr>in_disabled := True\<rparr> # xs),
            submitDisabled := map_option (\<lambda>d. True) (submitDisabled c)\<rparr>]\<rparr>)"

text \<open>
  \<^verbatim>\<open>handleQuizSubmit(quizContainer)\<close>, lines 233-264, for the container at position
  \<open>i\<close>. The handler returns at once without an input element or with an absent or empty
  expected answer. The submitted value is trimmed and lower-cased (line 237); the
  expected answer is lower-cased (line 243). When \<^verbatim>\<open>updateQuizScore\<close> does not return, the
  input and the button stay enabled.
\<close>

definition handleQuizSubmit :: "app \<Rightarrow> nat \<Rightarrow> outcome" where
  "handleQuizSubmit w i =
     (let quizContainer = containers w ! i
      in case inputs quizContainer of
           [] \<Rightarrow> Inr w
         | input # others \<Rightarrow>
             (case in_correctAnswer input of
                None \<Rightarrow> Inr w
              | Some correctAnswer \<Rightarrow>
                  if correctAnswer = [] then Inr w
                  else
                    let userAnswer = toLowerCase (trim (in_value input));
                        questionId = or_else (in_questionId input) ''input-question'';
                        isCorrect = (userAnswer = toLowerCase correctAnswer);
                        marked = input\<lparr>
                          in_classes := add_class (if isCorrect then ''correct'' else ''incorrect'')
                                          (in_classes input),
                          in_borderColor := (if isCorrect then ''#10b981'' else ''#ef4444''),
                          in_background := (if isCorrect then ''rgba(16, 185, 129, 0.1)''
                                            else ''rgba(239, 68, 68, 0.1)'')\<rparr>;
                        w1 = w\<lparr>containers := (containers w)[i := quizContainer\<lparr>inputs := marked # others\<rparr>]\<rparr>;
                        w2 = showQuizFeedback w1 i isCorrect
                               (if isCorrect then in_explanation input
                                else Some (or_else (in_explanation input)
                                             (''Correct answer: '' @ correctAnswer)))
                    in case updateQuizScore w2 (key_of (quizId quizContainer)) questionId isCorrect of
                         Inl e \<Rightarrow> Inl e
                       | Inr w3 \<Rightarrow> Inr (disable_input w3 i)))"

text \<open>
  A page with one quiz whose expected answer has a leading space, and the page after the
  submission of the trimmed, lower-cased answer.
\<close>

definition padded_input :: input_el where
  "padded_input =
     \<lparr> in_value = ''delta'', in_correctAnswer = Some '' Delta'', in_questionId = None,
       in_explanation = None, in_classes = [], in_borderColor = [], in_background = [],
       in_disabled = False \<rparr>"

definition padded_quiz :: app where
  "padded_quiz =
     \<lparr> quizScores = [''quiz-0'' \<mapsto> \<lparr> total = 0, correct = 0, answered = {} \<rparr>],
       containers = [\<lparr> quizId = Some ''quiz-0'', quizOptions = [], inputs = [padded_input],
                       feedback = [], celebrations = 0, scoreDisplay = None,
                       submitDisabled = Some False \<rparr>],
       confetti = 0 \<rparr>"

definition padded_quiz_submitted :: app where
  "padded_quiz_submitted =
     \<lparr> quizScores = [''quiz-0'' \<mapsto> \<lparr> total = 1, correct = 0, answered = {''input-question''} \<rparr>],
       containers =
         [\<lparr> quizId = Some ''quiz-0'', quizOptions = [],
            inputs = [padded_input\<lparr> in_classes := [''incorrect''], in_borderColor := ''#ef4444'',
                        in_background := ''rgba(239, 68, 68, 0.1)'', in_disabled := True \<rparr>],
            feedback = [\<lparr> fb_className = ''quiz-feedback incorrect'', fb_message = ''Incorrect'',
                          fb_color = ''#ef4444'', fb_explanation = Some ''Correct answer:  Delta'',
                          fb_background = ''rgba(239, 68, 68, 0.1)'' \<rparr>],
            celebrations = 0, scoreDisplay = None, submitDisabled = Some True \<rparr>],
       confetti = 0 \<rparr>"

text \<open>The same page with a clean expected answer and a submission in capitals and spaces.\<close>

definition clean_quiz :: app where
  "clean_quiz =
     padded_quiz\<lparr>containers :=
       [(containers padded_quiz ! 0)\<lparr>inputs :=
          [padded_input\<lparr>in_value := '' DELTA '', in_correctAnswer := Some ''Delta''\<rparr>]\<rparr>]\<rparr>"

text \<open>
  The page \<open>clean_quiz\<close> with the identifier \<^verbatim>\<open>a"b\<close>, and the same page when the handler
  has stopped at line 321: the answer is marked, the feedback is shown and the answer is
  counted, and the input and the button are enabled.
\<close>

definition quoted_id :: string where
  "quoted_id = [CHR ''a'', CHR 0x22, CHR ''b'']"

definition quoted_quiz :: app where
  "quoted_quiz =
     \<lparr> quizScores = [quoted_id \<mapsto> \<lparr> total = 0, correct = 0, answered = {} \<rparr>],
       containers = [\<lparr> quizId = Some quoted_id, quizOptions = [],
                       inputs = [padded_input\<lparr>in_value := '' DELTA '', in_correctAnswer := Some ''Delta''\<rparr>],
                       feedback = [], celebrations = 0, scoreDisplay = None,
                       submitDisabled = Some False \<rparr>],
       confetti = 0 \<rparr>"

definition quoted_quiz_stopped :: app where
  "quoted_quiz_stopped =
     \<lparr> quizScores = [quoted_id \<mapsto> \<lparr> total = 1, correct = 1, answered = {''input-question''} \<rparr>],
       containers =
         [\<lparr> quizId = Some quoted_id, quizOptions = [],
            inputs = [padded_input\<lparr> in_value := '' DELTA '', in_correctAnswer := Some ''Delta'',
                        in_classes := [''correct''], in_borderColor := ''#10b981'',
                        in_background := ''rgba(16, 185, 129, 0.1)'' \<rparr>],
            feedback = [\<lparr> fb_className = ''quiz-feedback correct'', fb_message = ''Correct!'',
                          fb_color = ''#10b981'', fb_explanation = None,
                          fb_background = ''rgba(16, 185, 129, 0.1)'' \<rparr>],
            celebrations = 0, scoreDisplay = None, submitDisabled = Some False \<rparr>],
       confetti = 0 \<rparr>"

section \<open>Debounce\<close>

text \<open>
  The state of one debounced function: the timeouts that the host holds for it (each
  with its identifier, the time at which it is due, and the arguments that its callback
  \<^verbatim>\<open>later\<close> captured), the next identifier the host hands out, the closure variable
  \<^verbatim>\<open>timeout\<close> (\<open>None\<close> while it is undefined), and the calls of the wrapped function so
  far, each by its arguments. Times are in milliseconds.
\<close>

record 'a debounced =
  pending :: "(nat \<times> nat \<times> 'a) list"
  next_id :: nat
  timeout :: "nat option"
  calls :: "'a list"

definition idle :: "'a debounced" where
  "idle = \<lparr> pending = [], next_id = 1, timeout = None, calls = [] \<rparr>"

text \<open>\<^verbatim>\<open>debounce(func, wait = 300)\<close>, line 711: the quiet period.\<close>

definition quiet_period :: "nat option \<Rightarrow> nat" where
  "quiet_period wait = (case wait of None \<Rightarrow> 300 | Some ms \<Rightarrow> ms)"

text \<open>\<^verbatim>\<open>clearTimeout(timeout)\<close>: an undefined or an expired identifier clears nothing.\<close>

definition clearTimeout :: "nat option \<Rightarrow> 'a debounced \<Rightarrow> 'a debounced" where
  "clearTimeout handle st =
     (case handle of
        None \<Rightarrow> st
      | Some i \<Rightarrow> st\<lparr>pending := filter (\<lambda>t. fst t \<noteq> i) (pending st)\<rparr>)"

text \<open>
  \<^verbatim>\<open>executedFunction(...args)\<close>, lines 713-720, called at the time \<open>now\<close>: the timeout
  in the variable is cleared and a new one is set, due after the quiet period, whose
  callback holds the arguments of this call.
\<close>

definition executedFunction :: "nat \<Rightarrow> nat \<Rightarrow> 'a \<Rightarrow> 'a debounced \<Rightarrow> 'a debounced" where
  "executedFunction wait now args st =
     (let st1 = clearTimeout (timeout st) st
      in st1\<lparr> pending := pending st1 @ [(next_id st1, now + wait, args)],
              next_id := next_id st1 + 1,
              timeout := Some (next_id st1) \<rparr>)"

text \<open>
  A timeout fires: the host drops it and runs its callback \<^verbatim>\<open>later\<close>, lines 714-717,
  which clears the timeout in the variable and calls the wrapped function.
\<close>

definition later :: "nat \<times> nat \<times> 'a \<Rightarrow> 'a debounced \<Rightarrow> 'a debounced" where
  "later t st =
     (let st1 = clearTimeout (timeout st) (st\<lparr>pending := filter (\<lambda>u. fst u \<noteq> fst t) (pending st)\<rparr>)
      in st1\<lparr>calls := calls st1 @ [snd (snd t)]\<rparr>)"

text \<open>The timeouts due by a time limit (all of them without a limit), and the earliest.\<close>

definition due_by :: "nat option \<Rightarrow> (nat \<times> nat \<times> 'a) list \<Rightarrow> (nat \<times> nat \<times> 'a) list" where
  "due_by limit ts = filter (\<lambda>t. case limit of None \<Rightarrow> True | Some now \<Rightarrow> fst (snd t) \<le> now) ts"

fun earliest :: "(nat \<times> nat \<times> 'a) list \<Rightarrow> (nat \<times> nat \<times> 'a) option" where
  "earliest [] = None"
| "earliest (t # ts) =
     (case earliest ts of
        None \<Rightarrow> Some t
      | Some u \<Rightarrow> if fst (snd u) < fst (snd t) then Some u else Some t)"

text \<open>The host runs the due timeouts, the earliest first, until none is due.\<close>

function run_timers :: "nat option \<Rightarrow> 'a debounced \<Rightarrow> 'a debounced" where
  "run_timers limit st =
     (case earliest (due_by limit (pending st)) of
        None \<Rightarrow> st
      | Some t \<Rightarrow> run_timers limit (later t st))"
  by pat_completeness auto
termination
proof (relation "measure (\<lambda>(limit, st). length (pending st))")
  show "wf (measure (\<lambda>(limit, st). length (pending st)))"
    by simp
next
  fix limit :: "nat option" and st :: "'a debounced" and t
  assume first: "earliest (due_by limit (pending st)) = Some t"
  have "u \<in> set ts" if "earliest ts = Some u" for u :: "nat \<times> nat \<times> 'a" and ts
    using that by (induction ts arbitrary: u) (auto split: option.splits if_splits)
  with first have "t \<in> set (due_by limit (pending st))"
    by blast
  then have "t \<in> set (pending st)"
    by (simp add: due_by_def)
  then have "length (filter (\<lambda>u. fst u \<noteq> fst t) (pending st)) < length (pending st)"
    by (intro length_filter_less [of t]) simp_all
  moreover have "length (pending (later t st)) \<le>
      length (filter (\<lambda>u. fst u \<noteq> fst t) (pending st))"
    by (simp add: later_def clearTimeout_def Let_def del: filter_filter split: option.splits)
  ultimately show "((limit, later t st), (limit, st)) \<in> measure (\<lambda>(limit, st). length (pending st))"
    by simp
qed

declare run_timers.simps [simp del]

text \<open>
  A sequence of invocations \<open>(time, arguments)\<close> of the debounced function, each a task
  of its own on a host that runs a timeout as soon as it is due: before each invocation
  the timeouts due by then have fired. Afterwards time passes until no timeout is left.
\<close>

fun invocations :: "nat \<Rightarrow> (nat \<times> 'a) list \<Rightarrow> 'a debounced \<Rightarrow> 'a debounced" where
  "invocations wait [] st = st"
| "invocations wait ((now, args) # rest) st =
     invocations wait rest (executedFunction wait now args (run_timers (Some now) st))"

definition debounce :: "nat option \<Rightarrow> (nat \<times> 'a) list \<Rightarrow> 'a debounced" where
  "debounce wait events = run_timers None (invocations (quiet_period wait) events idle)"


section \<open>Evaluating binary64 arithmetic\<close>

lemma floor_rat_numeral [simp]:
  "\<lfloor>numeral a / numeral b :: rat\<rfloor> = numeral a div numeral b"
  using floor_divide_of_int_eq [of "numeral a" "numeral b", where ?'a = rat] by simp

lemma floor_rat_neg_numeral [simp]:
  "\<lfloor>- (numeral a / numeral b) :: rat\<rfloor> = - numeral a div numeral b"
  using floor_divide_of_int_eq [of "- numeral a" "numeral b", where ?'a = rat] by simp

lemma ceiling_rat_numeral [simp]:
  "\<lceil>numeral a / numeral b :: rat\<rceil> = - (- numeral a div numeral b)"
  unfolding ceiling_def by simp

lemmas round64_eval = round64_def ulp_exp_def pack_def quantize_def round_half_even_def
  ties_even_def floor_log2_def clog2_def pow2_def ilog2.simps infinity_def signed_zero_def

lemmas arith_eval = js_add_def js_sub_def js_mul_def js_div_def is_inf_def is_zero_def

section \<open>Value at risk\<close>

lemma lit_0_02: "js_lit (1 / 50) = Fin (5764607523034235 / 288230376151711744)"
  by (simp add: js_lit_def round64_eval)

lemma lit_1_645: "js_lit (329 / 200) = Fin (3704210693512233 / 2251799813685248)"
  by (simp add: js_lit_def round64_eval)

lemma var_step1: "js_mul (Fin 10000) (Fin (5764607523034235 / 288230376151711744)) = Fin 200"
  by (simp add: arith_eval) (simp add: round64_eval)

lemma var_step2: "js_mul (Fin 200) (Fin (3704210693512233 / 2251799813685248)) = Fin 329"
  by (simp add: arith_eval) (simp add: round64_eval)

lemma calculateVaR_value:
  "result_value (calculateVaR P amount confidence volatility) =
     js_mul (js_mul amount volatility)
       (case zScores confidence of Some z \<Rightarrow> z | None \<Rightarrow> js_lit (1645 / 1000))"
  by (simp add: calculateVaR_def Let_def)

lemma calculateVaR_example:
  "result_value (calculateVaR P (Fin 10000) (Fin 95) (js_lit (2 / 100))) = Fin 329"
  by (simp add: calculateVaR_value zScores_def lit_0_02 lit_1_645 var_step1 var_step2)

lemma calculateVaR_fallback:
  "result_value (calculateVaR P (Fin 10000) (Fin 42) (js_lit (2 / 100))) = Fin 329"
  by (simp add: calculateVaR_value zScores_def lit_0_02 lit_1_645 var_step1 var_step2)

text \<open>
  Claim C4. For every call \<^verbatim>\<open>calculateVaR(value, confidence, volatility)\<close> the result
  value is the binary64 product \<open>value * volatility * z\<close>, evaluated left to right, where
  \<open>z\<close> is the literal 1.28 at confidence 90, 1.645 at 95, 2.33 at 99 and 1.645 at every
  other confidence; the sign flag is false whatever the sign of the value;
  \<^verbatim>\<open>calculateVaR(10000, 95, 0.02)\<close> has the value 329 exactly, and
  \<^verbatim>\<open>calculateVaR(10000, 42, 0.02)\<close> multiplies by 1.645.
\<close>

theorem calculateVaR_spec:
  "result_value (calculateVaR P amount confidence volatility) =
     js_mul (js_mul amount volatility)
       (if confidence = Fin 90 then js_lit (128 / 100)
        else if confidence = Fin 95 then js_lit (1645 / 1000)
        else if confidence = Fin 99 then js_lit (233 / 100)
        else js_lit (1645 / 1000))
   \<and> \<not> isPositive (calculateVaR P amount confidence volatility)
   \<and> result_value (calculateVaR P (Fin 10000) (Fin 95) (js_lit (2 / 100))) = Fin 329
   \<and> result_value (calculateVaR P (Fin 10000) (Fin 42) (js_lit (2 / 100))) =
       js_mul (js_mul (Fin 10000) (js_lit (2 / 100))) (js_lit (1645 / 1000))
   \<and> result_value (calculateVaR P (Fin 10000) (Fin 42) (js_lit (2 / 100))) = Fin 329"
proof -
  have "result_value (calculateVaR P amount confidence volatility) =
     js_mul (js_mul amount volatility)
       (if confidence = Fin 90 then js_lit (128 / 100)
        else if confidence = Fin 95 then js_lit (1645 / 1000)
        else if confidence = Fin 99 then js_lit (233 / 100)
        else js_lit (1645 / 1000))"
    by (simp add: calculateVaR_value zScores_def)
  moreover have "\<not> isPositive (calculateVaR P amount confidence volatility)"
    by (simp add: calculateVaR_def Let_def)
  moreover have "result_value (calculateVaR P (Fin 10000) (Fin 42) (js_lit (2 / 100))) =
       js_mul (js_mul (Fin 10000) (js_lit (2 / 100))) (js_lit (1645 / 1000))"
    by (simp add: calculateVaR_value zScores_def)
  ultimately show ?thesis
    using calculateVaR_example calculateVaR_fallback by blast
qed

text \<open>An instance with a negative portfolio value and an unknown confidence level.\<close>

theorem calculateVaR_spec_witness:
  "result_value (calculateVaR reference_engine (Fin (- 10000)) (Fin 42) (js_lit (2 / 100))) =
     js_mul (js_mul (Fin (- 10000)) (js_lit (2 / 100))) (js_lit (1645 / 1000))
   \<and> \<not> isPositive (calculateVaR reference_engine (Fin (- 10000)) (Fin 42) (js_lit (2 / 100)))"
  using calculateVaR_spec [of reference_engine "Fin (- 10000)" "Fin 42" "js_lit (2 / 100)"]
  by simp

section \<open>Return on investment\<close>

lemma roi_gain_1: "js_sub (Fin 150) (Fin 100) = Fin 50"
  by (simp add: arith_eval) (simp add: round64_eval)

lemma roi_gain_2: "js_div (Fin 50) (Fin 100) = Fin (1 / 2)"
  by (simp add: arith_eval) (simp add: round64_eval)

lemma roi_gain_3: "js_mul (Fin (1 / 2)) (Fin 100) = Fin 50"
  by (simp add: arith_eval) (simp add: round64_eval)

lemma roi_loss_1: "js_sub (Fin 50) (Fin 100) = Fin (- 50)"
  by (simp add: arith_eval) (simp add: round64_eval)

lemma roi_loss_2: "js_div (Fin (- 50)) (Fin 100) = Fin (- (1 / 2))"
  by (simp add: arith_eval) (simp add: round64_eval)

lemma roi_loss_3: "js_mul (Fin (- (1 / 2))) (Fin 100) = Fin (- 50)"
  by (simp add: arith_eval) (simp add: round64_eval)

lemma calculateROI_value:
  "result_value (calculateROI P initial final) =
     js_mul (js_div (js_sub final initial) initial) (Fin 100)"
  by (simp add: calculateROI_def Let_def)

lemma calculateROI_isPositive:
  "isPositive (calculateROI P initial final) =
     js_ge (result_value (calculateROI P initial final)) (Fin 0)"
  by (simp add: calculateROI_def Let_def)

lemma calculateROI_gain:
  "result_value (calculateROI P (Fin 100) (Fin 150)) = Fin 50 \<and>
   isPositive (calculateROI P (Fin 100) (Fin 150))"
  by (simp add: calculateROI_isPositive calculateROI_value roi_gain_1 roi_gain_2 roi_gain_3
      js_ge_def js_lt_def)

lemma calculateROI_loss:
  "result_value (calculateROI P (Fin 100) (Fin 50)) = Fin (- 50) \<and>
   \<not> isPositive (calculateROI P (Fin 100) (Fin 50))"
  by (simp add: calculateROI_isPositive calculateROI_value roi_loss_1 roi_loss_2 roi_loss_3
      js_ge_def js_lt_def)

text \<open>When no step rounds, the value is the rational the formula denotes.\<close>

lemma calculateROI_exact:
  assumes "i \<noteq> 0" and "f \<noteq> i"
      and "round64 (f - i) = Fin (f - i)"
      and "round64 ((f - i) / i) = Fin ((f - i) / i)"
      and "round64 ((f - i) / i * 100) = Fin ((f - i) / i * 100)"
  shows "result_value (calculateROI P (Fin i) (Fin f)) = Fin ((f - i) / i * 100)"
proof -
  have "js_sub (Fin f) (Fin i) = Fin (f - i)"
    using assms(1,2,3) by (simp add: arith_eval)
  moreover have "js_div (Fin (f - i)) (Fin i) = Fin ((f - i) / i)"
    using assms(1,2,4) by (simp add: arith_eval)
  moreover have "js_mul (Fin ((f - i) / i)) (Fin 100) = Fin ((f - i) / i * 100)"
    using assms(1,2,5) by (simp add: arith_eval)
  ultimately show ?thesis
    by (simp add: calculateROI_value)
qed

text \<open>
  Claim C5. The result value of \<^verbatim>\<open>calculateROI(initial, final)\<close> is
  \<open>(final - initial) / initial * 100\<close> in binary64 arithmetic, for every initial amount
  and so for every nonzero one; the sign flag is true exactly when that percentage is
  \<open>\<ge> 0\<close>; \<^verbatim>\<open>calculateROI(100, 150)\<close> gives 50 and true, \<^verbatim>\<open>calculateROI(100, 50)\<close> gives
  \<open>- 50\<close> and false.
\<close>

theorem calculateROI_spec:
  "result_value (calculateROI P initial final) =
     js_mul (js_div (js_sub final initial) initial) (Fin 100)
   \<and> isPositive (calculateROI P initial final) =
       js_ge (result_value (calculateROI P initial final)) (Fin 0)
   \<and> result_value (calculateROI P (Fin 100) (Fin 150)) = Fin 50
   \<and> isPositive (calculateROI P (Fin 100) (Fin 150))
   \<and> result_value (calculateROI P (Fin 100) (Fin 50)) = Fin (- 50)
   \<and> \<not> isPositive (calculateROI P (Fin 100) (Fin 50))"
  using calculateROI_value [of P initial final] calculateROI_isPositive [of P initial final]
    calculateROI_gain [of P] calculateROI_loss [of P]
  by blast

subsection \<open>A zero initial amount\<close>

lemma js_sub_zero: "representable a \<Longrightarrow> js_sub a (Fin 0) = a"
  by (cases a) (auto simp: arith_eval representable_def signed_zero_def)

lemma calculateROI_zero_value:
  assumes "representable final"
  shows "result_value (calculateROI P (Fin 0) final) =
     (if js_gt final (Fin 0) then PosInf else if js_lt final (Fin 0) then NegInf else NaN)"
proof -
  have "js_mul (js_div final (Fin 0)) (Fin 100) =
     (if js_gt final (Fin 0) then PosInf else if js_lt final (Fin 0) then NegInf else NaN)"
    by (cases final) (auto simp: js_div_def js_mul_def js_gt_def js_lt_def is_inf_def
        is_zero_def infinity_def)
  then show ?thesis
    using assms by (simp add: calculateROI_value js_sub_zero)
qed

text \<open>
  Claim C9. \<^verbatim>\<open>calculateROI\<close> divides by the initial amount without a guard: with the
  initial amount 0 the result value is never finite. It is \<open>+\<infinity>\<close> when \<open>final > 0\<close>,
  \<open>-\<infinity>\<close> when \<open>final < 0\<close> and \<open>NaN\<close> when \<open>final\<close> is zero; when it is \<open>NaN\<close> the sign
  flag is false and the formatted string is the placeholder \<^verbatim>\<open>0.00%\<close>.
\<close>

theorem calculateROI_zero_initial:
  assumes "representable final"
  shows "\<not> is_finite (result_value (calculateROI P (Fin 0) final))
    \<and> (js_gt final (Fin 0) \<longrightarrow> result_value (calculateROI P (Fin 0) final) = PosInf)
    \<and> (js_lt final (Fin 0) \<longrightarrow> result_value (calculateROI P (Fin 0) final) = NegInf)
    \<and> (is_zero final \<longrightarrow> result_value (calculateROI P (Fin 0) final) = NaN)
    \<and> (result_value (calculateROI P (Fin 0) final) = NaN \<longrightarrow>
         \<not> isPositive (calculateROI P (Fin 0) final)
         \<and> formatted (calculateROI P (Fin 0) final) = ''0.00%'')"
proof -
  let ?r = "calculateROI P (Fin 0) final"
  have v: "result_value ?r =
     (if js_gt final (Fin 0) then PosInf else if js_lt final (Fin 0) then NegInf else NaN)"
    using assms by (rule calculateROI_zero_value)
  have "\<not> is_finite (result_value ?r)"
    by (simp add: v is_finite_def)
  moreover have "is_zero final \<longrightarrow> result_value ?r = NaN"
    by (auto simp: v is_zero_def js_gt_def js_lt_def)
  moreover have "js_lt final (Fin 0) \<longrightarrow> result_value ?r = NegInf"
    using v by (cases final) (auto simp: js_gt_def js_lt_def)
  moreover have "result_value ?r = NaN \<longrightarrow> \<not> isPositive ?r \<and> formatted ?r = ''0.00%''"
    by (simp add: calculateROI_def Let_def js_ge_def formatPercentage_def isNaN_def)
  ultimately show ?thesis
    by (simp add: v)
qed

lemma representable_5: "representable (Fin 5)"
  by (simp add: representable_def) (simp add: round64_eval)

lemma representable_minus_5: "representable (Fin (- 5))"
  by (simp add: representable_def) (simp add: round64_eval)

lemma representable_0: "representable (Fin 0)"
  by (simp add: representable_def) (simp add: round64_eval)

text \<open>The three cases at the final amounts 5, \<open>- 5\<close> and 0.\<close>

theorem calculateROI_zero_initial_witness:
  "representable (Fin 5) \<and> js_gt (Fin 5) (Fin 0)
   \<and> result_value (calculateROI reference_engine (Fin 0) (Fin 5)) = PosInf
   \<and> representable (Fin (- 5)) \<and> js_lt (Fin (- 5)) (Fin 0)
   \<and> result_value (calculateROI reference_engine (Fin 0) (Fin (- 5))) = NegInf
   \<and> representable (Fin 0) \<and> is_zero (Fin 0)
   \<and> result_value (calculateROI reference_engine (Fin 0) (Fin 0)) = NaN
   \<and> \<not> isPositive (calculateROI reference_engine (Fin 0) (Fin 0))
   \<and> formatted (calculateROI reference_engine (Fin 0) (Fin 0)) = ''0.00%''"
proof -
  have a: "js_gt (Fin 5) (Fin 0)" and b: "js_lt (Fin (- 5)) (Fin 0)" and c: "is_zero (Fin 0)"
    by (simp_all add: js_gt_def js_lt_def is_zero_def)
  show ?thesis
    using calculateROI_zero_initial [OF representable_5, of reference_engine]
      calculateROI_zero_initial [OF representable_minus_5, of reference_engine]
      calculateROI_zero_initial [OF representable_0, of reference_engine]
      a b c representable_5 representable_minus_5 representable_0
    by blast
qed

text \<open>
  The claim is about the initial amount \<^verbatim>\<open>0\<close>, the positive zero. The negative zero, which
  a caller of the exported function can pass, turns the infinities round.
\<close>

lemma calculateROI_negative_zero_initial:
  "result_value (calculateROI P NegZero (Fin 5)) = NegInf"
proof -
  have "js_sub (Fin 5) NegZero = Fin 5"
    by (simp add: arith_eval) (simp add: round64_eval)
  then show ?thesis
    by (simp add: calculateROI_value js_div_def js_mul_def is_inf_def is_zero_def infinity_def)
qed

section \<open>Sharpe ratio\<close>

text \<open>\<open>NaN\<close> is below no bound, so it falls through to the last band.\<close>

lemma getSharpeInterpretation_NaN:
  "getSharpeInterpretation NaN = ''Exceptional - Outstanding risk-adjusted returns''"
  by (simp add: getSharpeInterpretation_def js_lt_def)

lemma js_sub_self_div_zero: "js_div (js_sub r r) (Fin 0) = NaN"
  by (cases r) (auto simp: arith_eval signed_zero_def)

text \<open>
  Claim C10. \<^verbatim>\<open>calculateSharpeRatio\<close> divides by the standard deviation without a guard:
  \<^verbatim>\<open>calculateSharpeRatio(r, r, 0)\<close> computes \<open>NaN\<close> for every \<open>r\<close>; \<open>NaN\<close> fails each band
  comparison of \<^verbatim>\<open>getSharpeInterpretation\<close>, so the interpretation is the top band, while
  the sign flag is false.
\<close>

theorem calculateSharpeRatio_zero_stdDev:
  "result_value (calculateSharpeRatio P r r (Fin 0)) = NaN
   \<and> interpretation_text (calculateSharpeRatio P r r (Fin 0)) =
       Some ''Exceptional - Outstanding risk-adjusted returns''
   \<and> \<not> isPositive (calculateSharpeRatio P r r (Fin 0))"
proof -
  let ?res = "calculateSharpeRatio P r r (Fin 0)"
  have ratio: "result_value ?res = NaN"
    by (simp add: calculateSharpeRatio_def Let_def js_sub_self_div_zero)
  have "interpretation_text ?res = Some (getSharpeInterpretation (result_value ?res))"
    by (simp add: calculateSharpeRatio_def Let_def)
  then have "interpretation_text ?res = Some ''Exceptional - Outstanding risk-adjusted returns''"
    by (simp add: ratio getSharpeInterpretation_NaN)
  moreover have "isPositive ?res = js_ge (result_value ?res) (Fin 0)"
    by (simp add: calculateSharpeRatio_def Let_def)
  then have "\<not> isPositive ?res"
    by (simp add: ratio js_ge_def)
  ultimately show ?thesis
    using ratio by simp
qed

section \<open>Compound growth\<close>

text \<open>
  The steps of \<^verbatim>\<open>calculateCompoundGrowth(1000, 10, 2)\<close>: \<open>10 / 100\<close> rounds to the binary64
  value nearest to 0.1, one plus it rounds to the value nearest to 1.1, which lies above
  1.1; its square rounds to the binary64 value just above 1.21, and the product with
  1000 rounds to the binary64 value just above 1210.
\<close>

lemma growth_rate: "js_div (Fin 10) (Fin 100) = Fin (3602879701896397 / 36028797018963968)"
  by (simp add: arith_eval) (simp add: round64_eval)

lemma growth_base:
  "js_add (Fin 1) (Fin (3602879701896397 / 36028797018963968)) =
     Fin (2476979795053773 / 2251799813685248)"
  by (simp add: arith_eval) (simp add: round64_eval)

lemma growth_square:
  "Number_exponentiate approx (Fin (2476979795053773 / 2251799813685248)) (Fin 2) =
     Fin (5449355549118301 / 4503599627370496)"
  apply (simp add: Number_exponentiate_def Number_isInteger_def is_zero_def)
  apply (simp add: power_int_def power2_eq_square)
  apply (simp add: round64_eval)
  done

lemma growth_final:
  "js_mul (Fin 1000) (Fin (5449355549118301 / 4503599627370496)) =
     Fin (5321636278435841 / 4398046511104)"
  by (simp add: arith_eval) (simp add: round64_eval)

lemma growth_gain:
  "js_sub (Fin (5321636278435841 / 4398046511104)) (Fin 1000) =
     Fin (923589767331841 / 4398046511104)"
  by (simp add: arith_eval) (simp add: round64_eval)

lemma calculateCompoundGrowth_value:
  "result_value (calculateCompoundGrowth P p r t) =
     js_mul p (Math_pow P (js_add (Fin 1) (js_div r (Fin 100))) t)"
  by (simp add: calculateCompoundGrowth_def Let_def)

lemma calculateCompoundGrowth_gain:
  "gain (calculateCompoundGrowth P p r t) =
     Some (formatCurrency P (js_sub (result_value (calculateCompoundGrowth P p r t)) p) ''USD'')"
  by (simp add: calculateCompoundGrowth_def Let_def)

lemma calculateCompoundGrowth_isPositive:
  "isPositive (calculateCompoundGrowth P p r t) =
     js_ge (js_sub (result_value (calculateCompoundGrowth P p r t)) p) (Fin 0)"
  by (simp add: calculateCompoundGrowth_def Let_def)

lemma calculateCompoundGrowth_example_value:
  "result_value (calculateCompoundGrowth (P\<lparr>Math_pow := Number_exponentiate approx\<rparr>)
      (Fin 1000) (Fin 10) (Fin 2)) = Fin (5321636278435841 / 4398046511104)"
  by (simp add: calculateCompoundGrowth_value growth_rate growth_base growth_square growth_final)

text \<open>
  Claim C6 as stated fails at \<^verbatim>\<open>calculateCompoundGrowth(1000, 10, 2)\<close>: with a
  \<^verbatim>\<open>Math.pow\<close> that rounds the square correctly, the final amount is not 1210.
\<close>

theorem calculateCompoundGrowth_not_1210:
  "result_value (calculateCompoundGrowth reference_engine (Fin 1000) (Fin 10) (Fin 2)) =
     Fin (1210 + 1 / 2 ^ 42)
   \<and> result_value (calculateCompoundGrowth reference_engine (Fin 1000) (Fin 10) (Fin 2)) \<noteq>
     Fin 1210"
proof -
  have "reference_engine = reference_engine\<lparr>Math_pow := Number_exponentiate (\<lambda>base exponent. NaN)\<rparr>"
    by (simp add: reference_engine_def)
  then have "result_value (calculateCompoundGrowth reference_engine (Fin 1000) (Fin 10) (Fin 2)) =
      Fin (5321636278435841 / 4398046511104)"
    using calculateCompoundGrowth_example_value
      [where P = reference_engine and approx = "\<lambda>base exponent. NaN"]
    by simp
  then show ?thesis
    by simp
qed

text \<open>
  Claim C6, amended. The result value of \<^verbatim>\<open>calculateCompoundGrowth(principal, rate, time)\<close>
  is \<open>principal * Math.pow(1 + rate / 100, time)\<close> in binary64 arithmetic, the gain shown
  is the currency format of that final amount minus the principal, and the sign flag is
  true exactly when that difference is \<open>\<ge> 0\<close>; \<^verbatim>\<open>calculateCompoundGrowth(1000, 10, 2)\<close>
  yields the final amount \<open>1210 + 2\<^sup>-\<^sup>4\<^sup>2\<close> (printed 1210.0000000000002), the gain
  \<open>210 + 2\<^sup>-\<^sup>4\<^sup>2\<close> and the sign flag true.
\<close>

theorem calculateCompoundGrowth_rounded:
  "result_value (calculateCompoundGrowth P p r t) =
     js_mul p (Math_pow P (js_add (Fin 1) (js_div r (Fin 100))) t)
   \<and> gain (calculateCompoundGrowth P p r t) =
       Some (formatCurrency P (js_sub (result_value (calculateCompoundGrowth P p r t)) p) ''USD'')
   \<and> isPositive (calculateCompoundGrowth P p r t) =
       js_ge (js_sub (result_value (calculateCompoundGrowth P p r t)) p) (Fin 0)
   \<and> (let E = P\<lparr>Math_pow := Number_exponentiate approx\<rparr>;
           res = calculateCompoundGrowth E (Fin 1000) (Fin 10) (Fin 2)
       in result_value res = Fin (1210 + 1 / 2 ^ 42)
          \<and> gain res = Some (formatCurrency E (Fin (210 + 1 / 2 ^ 42)) ''USD'')
          \<and> isPositive res)"
proof -
  let ?E = "P\<lparr>Math_pow := Number_exponentiate approx\<rparr>"
  let ?res = "calculateCompoundGrowth ?E (Fin 1000) (Fin 10) (Fin 2)"
  have v: "result_value ?res = Fin (5321636278435841 / 4398046511104)"
    by (rule calculateCompoundGrowth_example_value)
  have g: "js_sub (result_value ?res) (Fin 1000) = Fin (923589767331841 / 4398046511104)"
    by (simp only: v growth_gain)
  have "result_value ?res = Fin (1210 + 1 / 2 ^ 42)"
    by (simp add: v)
  moreover have "gain ?res = Some (formatCurrency ?E (Fin (210 + 1 / 2 ^ 42)) ''USD'')"
    by (simp only: calculateCompoundGrowth_gain g) simp
  moreover have "isPositive ?res"
    by (simp only: calculateCompoundGrowth_isPositive g) (simp add: js_ge_def js_lt_def)
  ultimately show ?thesis
    using calculateCompoundGrowth_value [of P p r t] calculateCompoundGrowth_gain [of P p r t]
      calculateCompoundGrowth_isPositive [of P p r t]
    by (simp only: Let_def)
qed

text \<open>The example once more, from the theorem.\<close>

theorem calculateCompoundGrowth_rounded_witness:
  "result_value (calculateCompoundGrowth reference_engine (Fin 1000) (Fin 10) (Fin 2)) =
     Fin (1210 + 1 / 2 ^ 42)
   \<and> isPositive (calculateCompoundGrowth reference_engine (Fin 1000) (Fin 10) (Fin 2))"
proof -
  let ?res = "calculateCompoundGrowth reference_engine (Fin 1000) (Fin 10) (Fin 2)"
  have e: "reference_engine\<lparr>Math_pow := Number_exponentiate (\<lambda>base exponent. NaN)\<rparr> =
      reference_engine"
    by (simp add: reference_engine_def)
  from calculateCompoundGrowth_rounded
      [where P = reference_engine and approx = "\<lambda>base exponent. NaN"
         and p = "Fin 1000" and r = "Fin 10" and t = "Fin 2"]
  have "let E = reference_engine\<lparr>Math_pow := Number_exponentiate (\<lambda>base exponent. NaN)\<rparr>;
            res = calculateCompoundGrowth E (Fin 1000) (Fin 10) (Fin 2)
        in result_value res = Fin (1210 + 1 / 2 ^ 42)
           \<and> gain res = Some (formatCurrency E (Fin (210 + 1 / 2 ^ 42)) ''USD'')
           \<and> isPositive res"
    by (elim conjE)
  then have "result_value ?res = Fin (1210 + 1 / 2 ^ 42)
      \<and> gain ?res = Some (formatCurrency reference_engine (Fin (210 + 1 / 2 ^ 42)) ''USD'')
      \<and> isPositive ?res"
    unfolding Let_def e .
  then show ?thesis
    by (elim conjE) (intro conjI)
qed

section \<open>Validation of numeric input\<close>

lemmas parse_eval = parseFloat_def parse_signed_def parse_unsigned_def parse_fraction_def
  parse_exponent_def exponent_part_def signed_integer_def is_digit_def is_ws_def decimal_def

lemma parseFloat_abc: "parseFloat ''abc'' = NaN"
  by (simp add: parse_eval)

lemma parseFloat_minus_5: "parseFloat ''-5'' = Fin (- 5)"
  apply (simp add: parse_eval)
  apply (simp add: to_number_def pow10_def)
  apply (simp add: round64_eval)
  done

lemma parseFloat_5_5: "parseFloat ''5.5'' = Fin (11 / 2)"
  apply (simp add: parse_eval)
  apply (simp add: to_number_def pow10_def)
  apply (simp add: round64_eval)
  done

lemma parseFloat_5: "parseFloat ''5'' = Fin 5"
  apply (simp add: parse_eval)
  apply (simp add: to_number_def pow10_def)
  apply (simp add: round64_eval)
  done

lemma parseFloat_minus_5_5: "parseFloat ''-5.5'' = Fin (- (11 / 2))"
  apply (simp add: parse_eval)
  apply (simp add: to_number_def pow10_def)
  apply (simp add: round64_eval)
  done

lemma validateNumericInput_refines:
  "validateNumericInput P input options = validate_spec P input options"
  by (cases "allowNegative options"; cases "allowDecimal options")
     (simp_all add: validateNumericInput_def validate_spec_def first_failure_def
       validation_checks_def invalid_def Let_def)

lemma validateNumericInput_success:
  "valid (validateNumericInput P input options) \<Longrightarrow>
     validateNumericInput P input options =
       \<lparr> valid = True, error = None, valid_value = Some (parseFloat input) \<rparr>"
  by (auto simp: validateNumericInput_def invalid_def Let_def split: if_splits)

lemma validateNumericInput_defaults:
  "valid (validateNumericInput P input no_options) = (\<not> isNaN (parseFloat input))"
  by (simp add: validateNumericInput_def invalid_def Let_def no_options_def isNaN_def
      js_lt_def js_gt_def)

lemma validate_abc:
  "validateNumericInput P ''abc'' no_options = invalid ''Please enter a valid number''"
  by (simp add: validateNumericInput_def Let_def parseFloat_abc isNaN_def)

lemma validate_negative:
  "validateNumericInput P ''-5'' (no_options\<lparr>allowNegative := Some False\<rparr>) =
     invalid ''Negative values are not allowed''"
  by (simp add: validateNumericInput_def Let_def parseFloat_minus_5 isNaN_def js_lt_def
      no_options_def)

lemma validate_decimal:
  "validateNumericInput P ''5.5'' (no_options\<lparr>allowDecimal := Some False\<rparr>) =
     invalid ''Please enter a whole number''"
  by (simp add: validateNumericInput_def Let_def parseFloat_5_5 isNaN_def js_lt_def
      no_options_def Number_isInteger_def)

lemma validate_below:
  "validateNumericInput P ''5'' (no_options\<lparr>min_opt := Some (Fin 10)\<rparr>) =
     invalid (''Value must be at least '' @ Number_toString P (Fin 10))"
  by (simp add: validateNumericInput_def Let_def parseFloat_5 isNaN_def js_lt_def
      no_options_def Number_isInteger_def)

lemma validate_above:
  "validateNumericInput P ''5'' (no_options\<lparr>max_opt := Some (Fin 3)\<rparr>) =
     invalid (''Value must be at most '' @ Number_toString P (Fin 3))"
  by (simp add: validateNumericInput_def Let_def parseFloat_5 isNaN_def js_lt_def js_gt_def
      no_options_def Number_isInteger_def)

lemma validate_order:
  "validateNumericInput P ''-5.5''
     \<lparr> min_opt = Some (Fin 0), max_opt = Some (Fin (- 10)),
       allowNegative = Some False, allowDecimal = Some False \<rparr> =
     invalid ''Negative values are not allowed''
   \<and> validateNumericInput P ''-5.5''
     \<lparr> min_opt = Some (Fin 0), max_opt = Some (Fin (- 10)),
       allowNegative = None, allowDecimal = Some False \<rparr> =
     invalid ''Please enter a whole number''
   \<and> validateNumericInput P ''-5.5''
     \<lparr> min_opt = Some (Fin 0), max_opt = Some (Fin (- 10)),
       allowNegative = None, allowDecimal = None \<rparr> =
     invalid (''Value must be at least '' @ Number_toString P (Fin 0))"
  by (simp add: validateNumericInput_def Let_def parseFloat_minus_5_5 isNaN_def js_lt_def
      js_gt_def Number_isInteger_def)

lemma validate_ok:
  "validateNumericInput P ''5'' no_options =
     \<lparr> valid = True, error = None, valid_value = Some (Fin 5) \<rparr>"
  by (simp add: validateNumericInput_def Let_def parseFloat_5 isNaN_def js_lt_def js_gt_def
      no_options_def)


text \<open>
  Claim C7. \<^verbatim>\<open>validateNumericInput\<close> is the function that goes through the checks
  not-a-number, negative disallowed, non-integer disallowed, below minimum, above maximum
  in this order and fails with the reason of the first check that fails; a valid result
  carries the parsed number; without options the bounds are infinite and both flags
  allow, so only an unparsable input fails; \<^verbatim>\<open>"abc"\<close> fails as not a number, \<^verbatim>\<open>"-5"\<close>
  as negative when negatives are disallowed, \<^verbatim>\<open>"5.5"\<close> as not whole when decimals are
  disallowed, and \<^verbatim>\<open>"5"\<close> as below the minimum 10.
\<close>

theorem validateNumericInput_first_failure:
  "validateNumericInput P input options = validate_spec P input options
   \<and> (valid (validateNumericInput P input options) \<longrightarrow>
        validateNumericInput P input options =
          \<lparr> valid = True, error = None, valid_value = Some (parseFloat input) \<rparr>)
   \<and> valid (validateNumericInput P input no_options) = (\<not> isNaN (parseFloat input))
   \<and> validateNumericInput P ''abc'' no_options = invalid ''Please enter a valid number''
   \<and> validateNumericInput P ''-5'' (no_options\<lparr>allowNegative := Some False\<rparr>) =
       invalid ''Negative values are not allowed''
   \<and> validateNumericInput P ''5.5'' (no_options\<lparr>allowDecimal := Some False\<rparr>) =
       invalid ''Please enter a whole number''
   \<and> validateNumericInput P ''5'' (no_options\<lparr>min_opt := Some (Fin 10)\<rparr>) =
       invalid (''Value must be at least '' @ Number_toString P (Fin 10))"
  using validateNumericInput_refines [of P input options]
    validateNumericInput_success [of P input options]
    validateNumericInput_defaults [of P input]
    validate_abc [of P] validate_negative [of P] validate_decimal [of P] validate_below [of P]
  by blast

text \<open>
  A valid input, and an input that fails three checks: the reason is that of the first.
\<close>

theorem validateNumericInput_first_failure_witness:
  "valid (validateNumericInput reference_engine ''5'' no_options)
   \<and> validateNumericInput reference_engine ''5'' no_options =
       \<lparr> valid = True, error = None, valid_value = Some (Fin 5) \<rparr>
   \<and> validate_spec reference_engine ''-5.5''
        \<lparr> min_opt = Some (Fin 0), max_opt = Some (Fin (- 10)),
          allowNegative = Some False, allowDecimal = Some False \<rparr> =
       invalid ''Negative values are not allowed''"
proof -
  have "valid (validateNumericInput reference_engine ''5'' no_options)"
    by (simp add: validate_ok)
  then show ?thesis
    using validateNumericInput_first_failure [of reference_engine "''5''" no_options]
      validateNumericInput_first_failure [of reference_engine "''-5.5''"
        "\<lparr> min_opt = Some (Fin 0), max_opt = Some (Fin (- 10)),
           allowNegative = Some False, allowDecimal = Some False \<rparr>"]
      validate_order [of reference_engine]
    by (simp add: parseFloat_5)
qed

section \<open>Scoring\<close>

lemma count_answer_le:
  "correct sd \<le> total sd \<Longrightarrow>
     correct (count_answer sd questionId isCorrect) \<le> total (count_answer sd questionId isCorrect)"
  by (simp add: count_answer_def)

lemma count_answer_total:
  "total (count_answer sd questionId isCorrect) =
     total sd + (if questionId \<in> answered sd then 0 else 1)"
  by (simp add: count_answer_def)

lemma count_answer_correct:
  "correct (count_answer sd questionId isCorrect) =
     correct sd + (if questionId \<notin> answered sd \<and> isCorrect then 1 else 0)"
  by (simp add: count_answer_def)

lemma count_answer_answered:
  "answered (count_answer sd questionId isCorrect) = insert questionId (answered sd)"
  by (auto simp: count_answer_def)

lemma quizScores_refresh_score [simp]: "quizScores (refresh_score w str sd) = quizScores w"
  by (simp add: refresh_score_def split: option.splits)

lemma quizScores_showCelebration [simp]: "quizScores (showCelebration w i) = quizScores w"
  by (simp add: showCelebration_def triggerConfetti_def Let_def)

lemma quizScores_checkQuizCompletion:
  "checkQuizCompletion w q = Inr w' \<Longrightarrow> quizScores w' = quizScores w"
  by (auto simp: checkQuizCompletion_def split: selector.splits option.splits if_splits)

lemma quizScores_checkQuizCompletion_stopped:
  "checkQuizCompletion w q = Inl (h, w') \<Longrightarrow> w' = w"
  by (auto simp: checkQuizCompletion_def split: selector.splits option.splits if_splits)

subsection \<open>Identifiers that the selector takes as they are\<close>

lemma filter_code_points_Cons:
  "c \<noteq> CHR 0x0D \<Longrightarrow> filter_code_points (c # cs) = filter_code_point c # filter_code_points cs"
  by (cases cs) simp_all

lemma of_char_plain:
  assumes "css_plain c"
  shows "filter_code_point c = of_char c"
    and "(of_char c :: nat) \<noteq> 0x22" and "(of_char c :: nat) \<noteq> 0x0A" and "(of_char c :: nat) \<noteq> 0x5C"
proof -
  show "filter_code_point c = of_char c"
    using assms by (simp add: css_plain_def filter_code_point_def)
  have "(of_char c :: nat) \<noteq> of_char (CHR 0x22)" "(of_char c :: nat) \<noteq> of_char (CHR 0x0A)"
    "(of_char c :: nat) \<noteq> of_char (CHR 0x5C)"
    using assms by (simp_all add: css_plain_def del: of_char_Char)
  then show "(of_char c :: nat) \<noteq> 0x22" and "(of_char c :: nat) \<noteq> 0x0A" and "(of_char c :: nat) \<noteq> 0x5C"
    by simp_all
qed

lemma filter_code_points_plain:
  "list_all css_plain q \<Longrightarrow>
     filter_code_points (q @ CHR 0x22 # tail) = map of_char q @ 0x22 # filter_code_points tail"
proof (induction q)
  case Nil
  show ?case by (simp add: filter_code_points_Cons filter_code_point_def)
next
  case (Cons c q)
  then have "c \<noteq> CHR 0x0D" by (simp add: css_plain_def)
  with Cons show ?case
    by (simp add: filter_code_points_Cons of_char_plain(1))
qed

lemma consume_string_plain:
  "\<forall>c \<in> set xs. c \<noteq> 0x22 \<and> c \<noteq> 0x0A \<and> c \<noteq> 0x5C \<Longrightarrow>
     consume_string str (xs @ 0x22 # rest) = String_token (str @ xs) rest"
  by (induction xs arbitrary: str) simp_all

text \<open>
  For an identifier of such code units both selectors test the attribute against the
  identifier itself, and the elements that match are the quizzes with this identifier.
\<close>

lemma quiz_selector_plain:
  assumes "list_all css_plain q" and "filter_code_points tail = map of_char tail"
  shows "quiz_selector q tail = Attribute_equals (map of_char q)"
proof -
  have "\<forall>c \<in> set (map of_char q :: nat list). c \<noteq> 0x22 \<and> c \<noteq> 0x0A \<and> c \<noteq> 0x5C"
    using assms(1) by (auto simp: list_all_iff of_char_plain)
  then have "consume_string [] (map of_char q @ 0x22 # filter_code_points tail) =
      String_token ([] @ map of_char q) (filter_code_points tail)"
    by (rule consume_string_plain)
  then show ?thesis
    using assms by (simp add: quiz_selector_def filter_code_points_plain)
qed

lemma quiz_selector_score:
  "list_all css_plain q \<Longrightarrow> quiz_selector q ''] .quiz-score'' = Attribute_equals (map of_char q)"
  by (rule quiz_selector_plain) (simp_all add: filter_code_point_def)

lemma quiz_selector_container:
  "list_all css_plain q \<Longrightarrow> quiz_selector q '']'' = Attribute_equals (map of_char q)"
  by (rule quiz_selector_plain) (simp_all add: filter_code_point_def)


lemma checkQuizCompletion_returns:
  "list_all css_plain q \<Longrightarrow> quizScores w q = Some sd \<Longrightarrow> \<exists>w'. checkQuizCompletion w q = Inr w'"
  by (simp add: checkQuizCompletion_def quiz_selector_container split: option.splits)

lemma updateQuizScore_returns:
  "list_all css_plain q \<Longrightarrow> quizScores w q = Some sd \<Longrightarrow>
     \<exists>w'. updateQuizScore w q questionId isCorrect = Inr w'"
  by (simp add: updateQuizScore_def quiz_selector_score checkQuizCompletion_returns)

text \<open>
  With a selector that is no selector, the update raises a \<^verbatim>\<open>SyntaxError\<close> when the answer
  is counted and before anything on the page is changed.
\<close>

lemma updateQuizScore_invalid_selector:
  assumes "quizScores w q = Some sd" and "quiz_selector q ''] .quiz-score'' = Invalid"
  shows "updateQuizScore w q questionId isCorrect =
     Inl (Throws SyntaxError,
          w\<lparr>quizScores := (quizScores w)(q \<mapsto> count_answer sd questionId isCorrect)\<rparr>)"
  using assms by (simp add: updateQuizScore_def)

lemma updateQuizScore_scores:
  assumes "updateQuizScore w q questionId isCorrect = Inr w'"
  shows "\<exists>sd. quizScores w q = Some sd \<and>
           quizScores w' = (quizScores w)(q \<mapsto> count_answer sd questionId isCorrect)"
proof (cases "quizScores w q")
  case None
  with assms show ?thesis by (simp add: updateQuizScore_def)
next
  case (Some sd)
  with assms have "quizScores w' = (quizScores w)(q \<mapsto> count_answer sd questionId isCorrect)"
    by (auto simp: updateQuizScore_def split: selector.splits dest!: quizScores_checkQuizCompletion)
  with Some show ?thesis by simp
qed

lemma updateQuizScore_scores_ok:
  assumes "scores_ok w" and "updateQuizScore w q questionId isCorrect = Inr w'"
  shows "scores_ok w'"
proof -
  obtain sd where sd: "quizScores w q = Some sd"
    and w': "quizScores w' = (quizScores w)(q \<mapsto> count_answer sd questionId isCorrect)"
    using updateQuizScore_scores [OF assms(2)] by blast
  from assms(1) sd have "correct sd \<le> total sd"
    by (simp add: scores_ok_def)
  then have "correct (count_answer sd questionId isCorrect) \<le> total (count_answer sd questionId isCorrect)"
    by (rule count_answer_le)
  with assms(1) show ?thesis
    by (auto simp: scores_ok_def w')
qed

lemma updates_scores_ok:
  "scores_ok w \<Longrightarrow> updates w events = Inr w' \<Longrightarrow> scores_ok w'"
proof (induction events arbitrary: w)
  case Nil
  then show ?case by simp
next
  case (Cons e events)
  obtain q questionId isCorrect where e: "e = (q, questionId, isCorrect)"
    by (cases e)
  from Cons.prems(2) obtain w1 where w1: "updateQuizScore w q questionId isCorrect = Inr w1"
    and rest: "updates w1 events = Inr w'"
    by (auto simp: e split: sum.splits)
  from Cons.prems(1) w1 have "scores_ok w1"
    by (rule updateQuizScore_scores_ok)
  then show ?case
    using rest by (rule Cons.IH)
qed

lemma graded_Nil [simp]: "graded q [] = {}"
  by (simp add: graded_def)

lemma graded_Cons:
  "graded q ((q', questionId, isCorrect) # events) =
     (if q' = q then insert questionId (graded q events) else graded q events)"
  by (simp add: graded_def)

lemma finite_graded [simp]: "finite (graded q events)"
  by (simp add: graded_def)

lemma card_new_insert:
  assumes "finite Q"
  shows "card (insert x Q - A) = (if x \<in> A then 0 else 1) + card (Q - insert x A)"
proof (cases "x \<in> A")
  case True
  then have "insert x Q - A = Q - insert x A" by auto
  then have "card (insert x Q - A) = card (Q - insert x A)" by (rule arg_cong)
  with True show ?thesis by simp
next
  case False
  then have "insert x Q - A = insert x (Q - insert x A)" by auto
  then have "card (insert x Q - A) = card (insert x (Q - insert x A))" by (rule arg_cong)
  also have "\<dots> = Suc (card (Q - insert x A))"
    by (rule card_insert_disjoint) (use assms in auto)
  finally show ?thesis using False by simp
qed

lemma updates_counts:
  assumes "updates w events = Inr w'" and "quizScores w q = Some sd"
  shows "\<exists>sd'. quizScores w' q = Some sd'
           \<and> answered sd' = answered sd \<union> graded q events
           \<and> total sd' = total sd + card (graded q events - answered sd)
           \<and> correct sd \<le> correct sd'
           \<and> correct sd' \<le> correct sd + card (graded q events - answered sd)"
  using assms
proof (induction events arbitrary: w sd)
  case Nil
  then show ?case by simp
next
  case (Cons e events)
  obtain q1 questionId isCorrect where e: "e = (q1, questionId, isCorrect)"
    by (cases e)
  from Cons.prems(1) obtain w1 where w1: "updateQuizScore w q1 questionId isCorrect = Inr w1"
    and rest: "updates w1 events = Inr w'"
    by (auto simp: e split: sum.splits)
  obtain sd1 where sd1: "quizScores w q1 = Some sd1"
    and scores1: "quizScores w1 = (quizScores w)(q1 \<mapsto> count_answer sd1 questionId isCorrect)"
    using updateQuizScore_scores [OF w1] by blast
  show ?case
  proof (cases "q1 = q")
    case False
    then have "quizScores w1 q = Some sd"
      using Cons.prems(2) by (simp add: scores1)
    from Cons.IH [OF rest this] show ?thesis
      using False by (simp add: e graded_Cons)
  next
    case True
    then have same: "sd1 = sd"
      using sd1 Cons.prems(2) by simp
    let ?sd = "count_answer sd questionId isCorrect"
    have "quizScores w1 q = Some ?sd"
      using True same by (simp add: scores1)
    from Cons.IH [OF rest this] obtain sd' where sd': "quizScores w' q = Some sd'"
      and a: "answered sd' = answered ?sd \<union> graded q events"
      and t: "total sd' = total ?sd + card (graded q events - answered ?sd)"
      and c1: "correct ?sd \<le> correct sd'"
      and c2: "correct sd' \<le> correct ?sd + card (graded q events - answered ?sd)"
      by blast
    have g: "graded q (e # events) = insert questionId (graded q events)"
      using True by (simp add: e graded_Cons)
    have card: "card (graded q (e # events) - answered sd) =
        (if questionId \<in> answered sd then 0 else 1) +
        card (graded q events - insert questionId (answered sd))"
      unfolding g by (rule card_new_insert) simp
    have "answered sd' = answered sd \<union> graded q (e # events)"
      using a by (auto simp: g count_answer_answered)
    moreover have "total sd' = total sd + card (graded q (e # events) - answered sd)"
      using t by (simp add: card count_answer_total count_answer_answered)
    moreover have "correct sd \<le> correct sd'"
      using c1 by (simp add: count_answer_correct)
    moreover have "correct sd' \<le> correct sd + card (graded q (e # events) - answered sd)"
      using c2 by (auto simp: card count_answer_correct count_answer_answered split: if_splits)
    ultimately show ?thesis
      using sd' by blast
  qed
qed

lemma count_answer_steps_le:
  assumes "correct sd \<le> total sd"
  shows "\<forall>s \<in> set (count_answer_steps sd questionId isCorrect). correct s \<le> total s"
  using assms by (auto simp: count_answer_steps_def)

lemma count_answer_steps_last:
  "last (sd # count_answer_steps sd questionId isCorrect) = count_answer sd questionId isCorrect"
  by (simp add: count_answer_steps_def count_answer_def)

lemma graded_same_question:
  assumes "\<forall>e \<in> set events. fst (snd e) = questionId"
  shows "card (graded q events - A) \<le> 1"
proof -
  have "graded q events - A \<subseteq> {questionId}"
    using assms by (auto simp: graded_def)
  then have "card (graded q events - A) \<le> card {questionId}"
    by (intro card_mono) simp_all
  then show ?thesis by simp
qed

text \<open>
  Claim C1. In every score record that \<^verbatim>\<open>updateQuizScore\<close> maintains, \<open>correct \<le> total\<close>
  holds after every sequence of grading events and after each single statement of the
  update; a sequence of events raises \<open>total\<close> by the number of distinct question
  identifiers that were not counted before and \<open>correct\<close> by no more, so that any number
  of events for one question identifier raises each counter at most once.
\<close>

theorem updateQuizScore_counts_once:
  assumes "scores_ok w" and "quizScores w q = Some sd" and "updates w events = Inr w'"
  shows "scores_ok w'
    \<and> (\<forall>s \<in> set (count_answer_steps sd questionId isCorrect). correct s \<le> total s)
    \<and> last (sd # count_answer_steps sd questionId isCorrect) = count_answer sd questionId isCorrect
    \<and> (\<exists>sd'. quizScores w' q = Some sd'
          \<and> correct sd' \<le> total sd'
          \<and> answered sd' = answered sd \<union> graded q events
          \<and> total sd' = total sd + card (graded q events - answered sd)
          \<and> correct sd \<le> correct sd'
          \<and> correct sd' \<le> correct sd + card (graded q events - answered sd)
          \<and> ((\<forall>e \<in> set events. fst (snd e) = questionId) \<longrightarrow>
               total sd' \<le> total sd + 1 \<and> correct sd' \<le> correct sd + 1))"
proof -
  have ok: "scores_ok w'"
    using assms(1,3) by (rule updates_scores_ok)
  have le: "correct sd \<le> total sd"
    using assms(1,2) by (simp add: scores_ok_def)
  obtain sd' where sd': "quizScores w' q = Some sd'"
    and a: "answered sd' = answered sd \<union> graded q events"
    and t: "total sd' = total sd + card (graded q events - answered sd)"
    and c1: "correct sd \<le> correct sd'"
    and c2: "correct sd' \<le> correct sd + card (graded q events - answered sd)"
    using updates_counts [OF assms(3,2)] by blast
  have "correct sd' \<le> total sd'"
    using ok sd' by (simp add: scores_ok_def)
  moreover have "total sd' \<le> total sd + 1 \<and> correct sd' \<le> correct sd + 1"
    if "\<forall>e \<in> set events. fst (snd e) = questionId"
    using graded_same_question [OF that, of q "answered sd"] t c2 by simp
  ultimately show ?thesis
    using ok sd' a t c1 c2 count_answer_steps_le [OF le, of questionId isCorrect]
      count_answer_steps_last [of sd questionId isCorrect]
    by blast
qed


lemma updates_returns:
  "\<forall>e \<in> set events. quizScores w (fst e) \<noteq> None \<and> list_all css_plain (fst e) \<Longrightarrow>
     \<exists>w'. updates w events = Inr w'"
proof (induction events arbitrary: w)
  case Nil
  then show ?case by simp
next
  case (Cons e events)
  obtain q questionId isCorrect where e: "e = (q, questionId, isCorrect)"
    by (cases e)
  from Cons.prems obtain sd where "quizScores w q = Some sd" and "list_all css_plain q"
    by (auto simp: e)
  then obtain w1 where w1: "updateQuizScore w q questionId isCorrect = Inr w1"
    using updateQuizScore_returns by blast
  have "quizScores w1 (fst e') \<noteq> None \<and> list_all css_plain (fst e')" if "e' \<in> set events" for e'
    using updateQuizScore_scores [OF w1] Cons.prems that by auto
  then obtain w' where "updates w1 events = Inr w'"
    using Cons.IH by blast
  then show ?case
    by (simp add: e w1)
qed

text \<open>
  The same question answered three times on a page with one quiz: it is counted once.
\<close>

theorem updateQuizScore_counts_once_witness:
  "scores_ok padded_quiz
   \<and> quizScores padded_quiz ''quiz-0'' = Some \<lparr> total = 0, correct = 0, answered = {} \<rparr>
   \<and> (\<exists>w' sd'.
         updates padded_quiz
           [(''quiz-0'', ''input-question'', True), (''quiz-0'', ''input-question'', True),
            (''quiz-0'', ''input-question'', False)] = Inr w'
         \<and> scores_ok w' \<and> quizScores w' ''quiz-0'' = Some sd'
         \<and> total sd' = 1 \<and> correct sd' \<le> 1)"
proof -
  let ?events = "[(''quiz-0'', ''input-question'', True), (''quiz-0'', ''input-question'', True),
            (''quiz-0'', ''input-question'', False)]"
  let ?sd = "\<lparr> total = 0, correct = 0, answered = {} \<rparr>"
  have a: "scores_ok padded_quiz"
    by (simp add: scores_ok_def padded_quiz_def)
  have b: "quizScores padded_quiz ''quiz-0'' = Some ?sd"
    by (simp add: padded_quiz_def)
  obtain w' where c: "updates padded_quiz ?events = Inr w'"
    using updates_returns [of ?events padded_quiz] by (auto simp: padded_quiz_def css_plain_def)
  have g: "graded ''quiz-0'' ?events = {''input-question''}"
    by (simp add: graded_def)
  from updateQuizScore_counts_once [OF a b c, of "''input-question''" True]
  obtain sd' where "scores_ok w'" and "quizScores w' ''quiz-0'' = Some sd'"
    and "total sd' = 1" and "correct sd' \<le> 1"
    by (auto simp: g)
  with a b c show ?thesis
    by blast
qed

subsection \<open>When the handler stops\<close>

text \<open>
  The invariant \<open>correct \<le> total\<close> also holds on the page that a stopped update leaves
  behind: the update stops before the answer is counted or after all three statements
  of the count.
\<close>

lemma updateQuizScore_stopped_scores:
  assumes "updateQuizScore w q questionId isCorrect = Inl (h, w')"
  shows "quizScores w' = quizScores w \<or>
     (\<exists>sd. quizScores w q = Some sd \<and>
        quizScores w' = (quizScores w)(q \<mapsto> count_answer sd questionId isCorrect))"
proof (cases "quizScores w q")
  case None
  with assms show ?thesis by (simp add: updateQuizScore_def)
next
  case (Some sd)
  with assms show ?thesis
    by (auto simp: updateQuizScore_def split: selector.splits
          dest!: quizScores_checkQuizCompletion_stopped)
qed

lemma updateQuizScore_stopped_scores_ok:
  assumes "scores_ok w" and "updateQuizScore w q questionId isCorrect = Inl (h, w')"
  shows "scores_ok w'"
proof -
  from updateQuizScore_stopped_scores [OF assms(2)] show ?thesis
  proof
    assume "quizScores w' = quizScores w"
    with assms(1) show ?thesis by (simp add: scores_ok_def)
  next
    assume "\<exists>sd. quizScores w q = Some sd \<and>
        quizScores w' = (quizScores w)(q \<mapsto> count_answer sd questionId isCorrect)"
    then obtain sd where sd: "quizScores w q = Some sd"
      and w': "quizScores w' = (quizScores w)(q \<mapsto> count_answer sd questionId isCorrect)"
      by blast
    from assms(1) sd have "correct sd \<le> total sd"
      by (simp add: scores_ok_def)
    then have "correct (count_answer sd questionId isCorrect) \<le> total (count_answer sd questionId isCorrect)"
      by (rule count_answer_le)
    with assms(1) show ?thesis
      by (auto simp: scores_ok_def w')
  qed
qed

subsection \<open>The records that \<^verbatim>\<open>initializeQuizzes\<close> creates\<close>

lemma length_initializeQuiz [simp]:
  "length (containers (initializeQuiz w i)) = length (containers w)"
  by (simp add: initializeQuiz_def Let_def split: option.splits)

lemma scores_ok_initializeQuiz:
  "scores_ok w \<Longrightarrow> scores_ok (initializeQuiz w i)"
  by (auto simp: scores_ok_def initializeQuiz_def Let_def split: option.splits if_splits)

lemma generated_id_own: "''quiz-'' @ s \<notin> set object_prototype_keys"
  by (simp add: object_prototype_keys_def)

lemma or_else_own:
  assumes "case v of None \<Rightarrow> True | Some q \<Rightarrow> q \<notin> set object_prototype_keys"
  shows "or_else v (''quiz-'' @ s) \<notin> set object_prototype_keys"
  using assms generated_id_own [of s] by (auto simp: or_else_def split: option.splits)

lemma own_ids_nth:
  assumes "own_ids w" and "k < length (containers w)"
  shows "or_else (quizId (containers w ! k)) (''quiz-'' @ s) \<notin> set object_prototype_keys"
proof -
  from assms have "case quizId (containers w ! k) of None \<Rightarrow> True
      | Some q \<Rightarrow> q \<notin> set object_prototype_keys"
    by (simp add: own_ids_def list_all_length)
  then show ?thesis
    by (rule or_else_own)
qed

lemma containers_initializeQuiz:
  "containers (initializeQuiz w k) =
     (containers w)[k := (containers w ! k)\<lparr>quizId :=
        Some (or_else (quizId (containers w ! k)) (''quiz-'' @ show_nat k))\<rparr>]"
  by (simp add: initializeQuiz_def Let_def split: option.splits)

lemma own_ids_initializeQuiz:
  assumes "own_ids w"
  shows "own_ids (initializeQuiz w k)"
proof (cases "k < length (containers w)")
  case True
  let ?P = "\<lambda>c. case quizId c of None \<Rightarrow> True | Some q \<Rightarrow> q \<notin> set object_prototype_keys"
  have "?P c" if "c \<in> set (containers (initializeQuiz w k))" for c
  proof -
    from that have "c \<in> insert ((containers w ! k)\<lparr>quizId :=
        Some (or_else (quizId (containers w ! k)) (''quiz-'' @ show_nat k))\<rparr>) (set (containers w))"
      using set_update_subset_insert [of "containers w" k] by (auto simp: containers_initializeQuiz)
    then show ?thesis
      using assms own_ids_nth [OF assms True, of "show_nat k"]
      by (auto simp: own_ids_def list_all_iff)
  qed
  then show ?thesis
    by (simp add: own_ids_def list_all_iff)
next
  case False
  with assms show ?thesis
    by (simp add: own_ids_def containers_initializeQuiz list_update_beyond not_less)
qed

lemma initialized_initializeQuiz:
  assumes "initialized k w" and "k < length (containers w)" and "own_ids w"
  shows "initialized (Suc k) (initializeQuiz w k)"
proof -
  let ?qid = "or_else (quizId (containers w ! k)) (''quiz-'' @ show_nat k)"
  let ?w1 = "w\<lparr>containers := (containers w)[k := (containers w ! k)\<lparr>quizId := Some ?qid\<rparr>]\<rparr>"
  have own: "?qid \<notin> set object_prototype_keys"
    using assms(3,2) by (rule own_ids_nth)
  have w': "initializeQuiz w k =
      (case quizScores w ?qid of
         Some sd \<Rightarrow> ?w1
       | None \<Rightarrow> ?w1\<lparr>quizScores := (quizScores w)(?qid \<mapsto> \<lparr> total = 0, correct = 0, answered = {} \<rparr>)\<rparr>)"
    using own by (simp add: initializeQuiz_def Let_def split: option.splits)
  have "\<exists>q sd. quizId (containers (initializeQuiz w k) ! j) = Some q
          \<and> quizScores (initializeQuiz w k) q = Some sd" if "j < Suc k" for j
  proof (cases "j = k")
    case True
    then show ?thesis
      using assms(2) by (auto simp: w' split: option.splits)
  next
    case False
    with that have "j < k" by simp
    with assms(1) obtain q sd where "quizId (containers w ! j) = Some q"
      and "quizScores w q = Some sd"
      by (auto simp: initialized_def)
    with False show ?thesis
      by (auto simp: w' split: option.splits)
  qed
  then show ?thesis
    by (simp add: initialized_def)
qed

lemma fold_initializeQuiz:
  assumes "n \<le> length (containers w)" and "scores_ok w" and "own_ids w"
  shows "initialized n (fold (\<lambda>index w'. initializeQuiz w' index) [0..<n] w)
       \<and> scores_ok (fold (\<lambda>index w'. initializeQuiz w' index) [0..<n] w)
       \<and> own_ids (fold (\<lambda>index w'. initializeQuiz w' index) [0..<n] w)
       \<and> length (containers (fold (\<lambda>index w'. initializeQuiz w' index) [0..<n] w)) =
           length (containers w)"
  using assms
proof (induction n)
  case 0
  then show ?case by (simp add: initialized_def)
next
  case (Suc n)
  let ?w = "fold (\<lambda>index w'. initializeQuiz w' index) [0..<n] w"
  from Suc have ih: "initialized n ?w" "scores_ok ?w" "own_ids ?w"
      "length (containers ?w) = length (containers w)"
    by simp_all
  have "n < length (containers ?w)"
    using Suc.prems(1) ih(4) by simp
  with ih(1) have "initialized (Suc n) (initializeQuiz ?w n)"
    using ih(3) by (rule initialized_initializeQuiz)
  moreover have "scores_ok (initializeQuiz ?w n)"
    using ih(2) by (rule scores_ok_initializeQuiz)
  moreover have "own_ids (initializeQuiz ?w n)"
    using ih(3) by (rule own_ids_initializeQuiz)
  ultimately show ?case
    using ih(4) by simp
qed

lemma fold_initializeQuiz_scores_ok:
  "scores_ok w \<Longrightarrow> scores_ok (fold (\<lambda>index w'. initializeQuiz w' index) ns w)"
  by (induction ns arbitrary: w) (simp_all add: scores_ok_initializeQuiz)

text \<open>
  After \<^verbatim>\<open>initializeQuizzes\<close> on a page without score records, every record satisfies
  \<open>correct \<le> total\<close>, and when no quiz is named like a property of \<^verbatim>\<open>Object.prototype\<close>,
  every quiz of the document has an identifier and a score record: the grading events
  of the page start from such a state.
\<close>

lemma initializeQuizzes_establishes:
  assumes "quizScores w = Map.empty"
  shows "scores_ok (initializeQuizzes w)"
    and "own_ids w \<Longrightarrow> initialized (length (containers w)) (initializeQuizzes w)"
proof -
  have ok: "scores_ok w"
    using assms by (simp add: scores_ok_def)
  then show "scores_ok (initializeQuizzes w)"
    unfolding initializeQuizzes_def by (rule fold_initializeQuiz_scores_ok)
  show "initialized (length (containers w)) (initializeQuizzes w)" if "own_ids w"
    using fold_initializeQuiz [of "length (containers w)" w] ok that
    by (simp add: initializeQuizzes_def)
qed

text \<open>
  A quiz named \<^verbatim>\<open>constructor\<close> gets no record, and its first answer raises a
  \<^verbatim>\<open>TypeError\<close>.
\<close>

lemma initializeQuiz_inherited:
  assumes "quizId (containers w ! k) = Some ''constructor''" and "quizScores w ''constructor'' = None"
  shows "quizScores (initializeQuiz w k) = quizScores w"
    and "updateQuizScore (initializeQuiz w k) ''constructor'' questionId isCorrect =
           Inl (Throws TypeError, initializeQuiz w k)"
proof -
  show "quizScores (initializeQuiz w k) = quizScores w"
    using assms by (simp add: initializeQuiz_def Let_def or_else_def object_prototype_keys_def)
  with assms(2) show "updateQuizScore (initializeQuiz w k) ''constructor'' questionId isCorrect =
           Inl (Throws TypeError, initializeQuiz w k)"
    by (simp add: updateQuizScore_def)
qed

section \<open>Completion\<close>

lemma find_index_Some:
  "find_index p xs = Some i \<Longrightarrow> i < length xs \<and> p (xs ! i)"
proof (induction xs arbitrary: i)
  case Nil
  then show ?case by simp
next
  case (Cons x xs)
  then show ?case
    by (cases "p x") auto
qed



lemma refresh_score_cases:
  "refresh_score w str sd = w \<or>
   (\<exists>j shown. j < length (containers w) \<and>
      refresh_score w str sd =
        w\<lparr>containers := (containers w)[j := (containers w ! j)\<lparr>scoreDisplay := shown\<rparr>]\<rparr>)"
proof (cases "find_index (\<lambda>c. has_id str c \<and> scoreDisplay c \<noteq> None) (containers w)")
  case None
  then show ?thesis by (simp add: refresh_score_def)
next
  case (Some j)
  then have "j < length (containers w)"
    by (simp add: find_index_Some)
  with Some show ?thesis
    by (auto simp: refresh_score_def)
qed

lemma length_refresh_score [simp]:
  "length (containers (refresh_score w str sd)) = length (containers w)"
  using refresh_score_cases [of w str sd] by auto

lemma nth_refresh_score:
  assumes "i < length (containers w)"
  shows "quizId (containers (refresh_score w str sd) ! i) = quizId (containers w ! i)"
    and "gradable (containers (refresh_score w str sd) ! i) = gradable (containers w ! i)"
    and "celebrations (containers (refresh_score w str sd) ! i) = celebrations (containers w ! i)"
    and "feedback (containers (refresh_score w str sd) ! i) = feedback (containers w ! i)"
    and "inputs (containers (refresh_score w str sd) ! i) = inputs (containers w ! i)"
    and "submitDisabled (containers (refresh_score w str sd) ! i) = submitDisabled (containers w ! i)"
  using assms refresh_score_cases [of w str sd]
  by (auto simp: gradable_def nth_list_update)

lemma quizId_refresh_score [simp]:
  "map quizId (containers (refresh_score w str sd)) = map quizId (containers w)"
  by (rule nth_equalityI) (simp_all add: nth_refresh_score)

lemma confetti_refresh_score [simp]: "confetti (refresh_score w str sd) = confetti w"
  by (simp add: refresh_score_def split: option.splits)



lemma length_showCelebration [simp]:
  "length (containers (showCelebration w i)) = length (containers w)"
  by (simp add: showCelebration_def triggerConfetti_def Let_def)




lemma checkQuizCompletion_cases:
  assumes "checkQuizCompletion w q = Inr w'"
  shows "w' = w \<or> (\<exists>i < length (containers w). w' = showCelebration w i)"
  using assms
  by (auto simp: checkQuizCompletion_def split: selector.splits option.splits if_splits
        dest: find_index_Some)







text \<open>
  On the page \<open>quoted_quiz\<close> the identifier \<^verbatim>\<open>a"b\<close> ends the string of the selector after
  \<^verbatim>\<open>a\<close>, and \<^verbatim>\<open>b\<close> cannot follow the string: the update counts the correct answer, raises
  a \<^verbatim>\<open>SyntaxError\<close> on line 321 and renders no celebration, although the correct count is
  then the number of gradable elements.
\<close>

lemma updateQuizScore_quoted_id:
  "quiz_selector quoted_id ''] .quiz-score'' = Invalid
   \<and> gradable (containers quoted_quiz ! 0) = 1
   \<and> updateQuizScore quoted_quiz quoted_id ''input-question'' True =
       Inl (Throws SyntaxError,
            quoted_quiz\<lparr>quizScores := [quoted_id \<mapsto>
              \<lparr> total = 1, correct = 1, answered = {''input-question''} \<rparr>]\<rparr>)"
proof -
  have inv: "quiz_selector quoted_id ''] .quiz-score'' = Invalid"
    by (simp add: quoted_id_def quiz_selector_def filter_code_point_def is_whitespace_def)
  have rec: "quizScores quoted_quiz quoted_id = Some \<lparr> total = 0, correct = 0, answered = {} \<rparr>"
    by (simp add: quoted_quiz_def)
  have "gradable (containers quoted_quiz ! 0) = 1"
    by (simp add: gradable_def quoted_quiz_def padded_input_def)
  with inv updateQuizScore_invalid_selector [OF rec inv, of "''input-question''" True]
  show ?thesis
    by (simp add: count_answer_def quoted_quiz_def)
qed

text \<open>
  An identifier with a backslash: in \<^verbatim>\<open>a\xb\<close> the backslash escapes the \<^verbatim>\<open>x\<close>, both
  selectors test the attribute against \<^verbatim>\<open>axb\<close>, and on a page whose only quiz is named
  \<^verbatim>\<open>a\xb\<close> they find no element, so that no score is shown and no celebration is
  rendered.
\<close>

lemma updateQuizScore_escaped_id:
  "quiz_selector [CHR ''a'', CHR 0x5C, CHR ''x'', CHR ''b''] '']'' = Attribute_equals (map of_char ''axb'')
   \<and> updateQuizScore
         (quoted_quiz\<lparr>quizScores := [[CHR ''a'', CHR 0x5C, CHR ''x'', CHR ''b''] \<mapsto>
              \<lparr> total = 0, correct = 0, answered = {} \<rparr>],
            containers := [(containers quoted_quiz ! 0)\<lparr>
              quizId := Some [CHR ''a'', CHR 0x5C, CHR ''x'', CHR ''b'']\<rparr>]\<rparr>)
         [CHR ''a'', CHR 0x5C, CHR ''x'', CHR ''b''] ''input-question'' True =
       Inr (quoted_quiz\<lparr>quizScores := [[CHR ''a'', CHR 0x5C, CHR ''x'', CHR ''b''] \<mapsto>
              \<lparr> total = 1, correct = 1, answered = {''input-question''} \<rparr>],
            containers := [(containers quoted_quiz ! 0)\<lparr>
              quizId := Some [CHR ''a'', CHR 0x5C, CHR ''x'', CHR ''b'']\<rparr>]\<rparr>)"
  by (simp add: quoted_quiz_def updateQuizScore_def checkQuizCompletion_def refresh_score_def
        count_answer_def quiz_selector_def filter_code_point_def is_whitespace_def has_id_def
        consume_escaped_def is_hex_digit_def)

section \<open>Lower-casing and trimming\<close>

lemma of_char_lower_char:
  "(of_char (lower_char c) :: nat) =
     (if (65 \<le> (of_char c :: nat) \<and> (of_char c :: nat) \<le> 90) \<or>
         (192 \<le> (of_char c :: nat) \<and> (of_char c :: nat) \<le> 222 \<and> (of_char c :: nat) \<noteq> 215)
      then of_char c + 32 else of_char c)"
proof (cases c)
  case (Char b0 b1 b2 b3 b4 b5 b6 b7)
  show ?thesis
    unfolding Char lower_char_def
    by (cases b0; cases b1; cases b2; cases b3; cases b4; cases b5; cases b6; cases b7) simp_all
qed

lemma is_ws_lower_char [simp]: "is_ws (lower_char c) = is_ws c"
  unfolding is_ws_def of_char_lower_char by auto

lemma lower_char_idem [simp]: "lower_char (lower_char c) = lower_char c"
proof -
  have "(of_char (lower_char (lower_char c)) :: nat) = of_char (lower_char c)"
    unfolding of_char_lower_char by auto
  then show ?thesis
    by (metis char_of_char)
qed


lemma toLowerCase_idem [simp]: "toLowerCase (toLowerCase s) = toLowerCase s"
  by (simp add: toLowerCase_def)

lemma dropWhile_is_ws_lower:
  "dropWhile is_ws (toLowerCase s) = toLowerCase (dropWhile is_ws s)"
  by (simp add: toLowerCase_def dropWhile_map comp_def)

lemma trim_toLowerCase: "trim (toLowerCase s) = toLowerCase (trim s)"
proof -
  have "rev (toLowerCase s) = toLowerCase (rev s)" for s
    by (simp add: toLowerCase_def rev_map)
  then show ?thesis
    by (simp add: trim_def dropWhile_is_ws_lower)
qed

lemma last_dropWhile: "dropWhile p xs \<noteq> [] \<Longrightarrow> last (dropWhile p xs) = last xs"
  by (induction xs) (auto split: if_splits)

text \<open>A trimmed string neither starts nor ends with white space.\<close>

lemma trim_ends:
  assumes "trim s \<noteq> []"
  shows "\<not> is_ws (hd (trim s))" and "\<not> is_ws (last (trim s))"
proof -
  let ?t = "dropWhile is_ws s"
  let ?u = "dropWhile is_ws (rev ?t)"
  have u: "?u \<noteq> []"
    using assms by (simp add: trim_def)
  have t: "?t \<noteq> []"
  proof
    assume e: "?t = []"
    have "?u = []" unfolding e by simp
    then show False using u by blast
  qed
  have "last (trim s) = hd ?u"
    using u by (simp add: trim_def last_rev)
  then show "\<not> is_ws (last (trim s))"
    using u hd_dropWhile [of is_ws "rev ?t"] by simp
  have "hd (trim s) = last ?u"
    using u by (simp add: trim_def hd_rev)
  also have "\<dots> = last (rev ?t)"
    using u by (rule last_dropWhile)
  also have "\<dots> = hd ?t"
    using t by (simp add: last_rev)
  finally show "\<not> is_ws (hd (trim s))"
    using t hd_dropWhile [of is_ws s] by simp
qed

lemma toLowerCase_ends:
  assumes "s \<noteq> []"
  shows "is_ws (hd (toLowerCase s)) = is_ws (hd s)"
    and "is_ws (last (toLowerCase s)) = is_ws (last s)"
  using assms by (simp_all add: toLowerCase_def hd_map last_map)

text \<open>No submitted value matches an expected answer that starts or ends with white space.\<close>

lemma padded_never_matches:
  assumes "expected \<noteq> []" and "is_ws (hd expected) \<or> is_ws (last expected)"
  shows "toLowerCase (trim submitted) \<noteq> toLowerCase expected"
proof
  assume eq: "toLowerCase (trim submitted) = toLowerCase expected"
  have "toLowerCase expected \<noteq> []"
    using assms(1) by (simp add: toLowerCase_def)
  with eq have ne: "trim submitted \<noteq> []"
    by (auto simp: toLowerCase_def)
  have "is_ws (hd (toLowerCase (trim submitted))) = is_ws (hd expected)"
    and "is_ws (last (toLowerCase (trim submitted))) = is_ws (last expected)"
    using toLowerCase_ends [OF assms(1)] by (simp_all add: eq)
  then have "is_ws (hd (trim submitted)) = is_ws (hd expected)"
    and "is_ws (last (trim submitted)) = is_ws (last expected)"
    using toLowerCase_ends [OF ne] by simp_all
  with trim_ends [OF ne] assms(2) show False
    by simp
qed

text \<open>The lower-cased form of an expected answer without surrounding white space matches.\<close>

lemma clean_matches:
  assumes "trim expected = expected"
  shows "toLowerCase (trim (toLowerCase expected)) = toLowerCase expected"
  by (simp add: trim_toLowerCase assms)


section \<open>Free-text submission\<close>

lemma map_list_update_same:
  assumes "f y = f (xs ! k)"
  shows "map f (xs[k := y]) = map f xs"
proof (cases "k < length xs")
  case True
  then have "(map f xs)[k := f y] = map f xs"
    using assms by (simp add: list_update_same_conv)
  then show ?thesis
    by (simp add: map_update)
next
  case False
  then show ?thesis by (simp add: list_update_beyond not_less)
qed

lemma feedback_refresh_score:
  "map feedback (containers (refresh_score w str sd)) = map feedback (containers w)"
  using refresh_score_cases [of w str sd] by (auto simp: map_list_update_same)

lemma feedback_showCelebration:
  "map feedback (containers (showCelebration w j)) = map feedback (containers w)"
  by (simp add: showCelebration_def triggerConfetti_def Let_def map_list_update_same)

lemma feedback_checkQuizCompletion:
  "checkQuizCompletion w q = Inr w' \<Longrightarrow>
     map feedback (containers w') = map feedback (containers w)"
  using checkQuizCompletion_cases [of w q w'] by (auto simp: feedback_showCelebration)

lemma feedback_updateQuizScore:
  assumes "updateQuizScore w q questionId isCorrect = Inr w'"
  shows "map feedback (containers w') = map feedback (containers w)"
proof (cases "quizScores w q")
  case None
  with assms show ?thesis by (simp add: updateQuizScore_def)
next
  case (Some sd)
  with assms show ?thesis
    by (auto simp: updateQuizScore_def feedback_refresh_score split: selector.splits
          dest!: feedback_checkQuizCompletion)
qed

lemma feedback_disable_input:
  "map feedback (containers (disable_input w i)) = map feedback (containers w)"
  by (simp add: disable_input_def Let_def map_list_update_same)

lemma quizScores_disable_input [simp]: "quizScores (disable_input w i) = quizScores w"
  by (simp add: disable_input_def Let_def)

lemma quizScores_showQuizFeedback [simp]:
  "quizScores (showQuizFeedback w i isCorrect explanation) = quizScores w"
  by (simp add: showQuizFeedback_def Let_def)

lemma feedback_showQuizFeedback:
  assumes "i < length (containers w)"
  shows "fb_message (last (feedback (containers (showQuizFeedback w i isCorrect explanation) ! i))) =
           (if isCorrect then ''Correct!'' else ''Incorrect'')"
    and "length (containers (showQuizFeedback w i isCorrect explanation)) = length (containers w)"
  using assms by (simp_all add: showQuizFeedback_def Let_def)

text \<open>
  What a submission does when the quiz has an input, an expected answer, a record and an
  identifier that the selectors take as it is.
\<close>

lemma handleQuizSubmit_graded:
  assumes "i < length (containers w)"
      and "inputs (containers w ! i) = input # others"
      and "in_correctAnswer input = Some expected" and "expected \<noteq> []"
      and "quizScores w (key_of (quizId (containers w ! i))) = Some sd"
      and "list_all css_plain (key_of (quizId (containers w ! i)))"
  shows "\<exists>w'. handleQuizSubmit w i = Inr w'
          \<and> quizScores w' (key_of (quizId (containers w ! i))) =
              Some (count_answer sd (or_else (in_questionId input) ''input-question'')
                      (toLowerCase (trim (in_value input)) = toLowerCase expected))
          \<and> fb_message (last (feedback (containers w' ! i))) =
              (if toLowerCase (trim (in_value input)) = toLowerCase expected
               then ''Correct!'' else ''Incorrect'')"
proof -
  let ?c = "containers w ! i"
  let ?q = "key_of (quizId ?c)"
  let ?ok = "toLowerCase (trim (in_value input)) = toLowerCase expected"
  let ?qid = "or_else (in_questionId input) ''input-question''"
  let ?marked = "input\<lparr>
      in_classes := add_class (if ?ok then ''correct'' else ''incorrect'') (in_classes input),
      in_borderColor := (if ?ok then ''#10b981'' else ''#ef4444''),
      in_background := (if ?ok then ''rgba(16, 185, 129, 0.1)'' else ''rgba(239, 68, 68, 0.1)'')\<rparr>"
  let ?w1 = "w\<lparr>containers := (containers w)[i := ?c\<lparr>inputs := ?marked # others\<rparr>]\<rparr>"
  let ?w2 = "showQuizFeedback ?w1 i ?ok
      (if ?ok then in_explanation input
       else Some (or_else (in_explanation input) (''Correct answer: '' @ expected)))"
  have unfold: "handleQuizSubmit w i =
      (case updateQuizScore ?w2 ?q ?qid ?ok of Inl e \<Rightarrow> Inl e | Inr w3 \<Rightarrow> Inr (disable_input w3 i))"
    using assms(2,3,4) by (simp add: handleQuizSubmit_def Let_def)
  have i1: "i < length (containers ?w1)"
    using assms(1) by simp
  have rec: "quizScores ?w2 ?q = Some sd"
    using assms(5) by simp
  with assms(6) obtain w3 where w3: "updateQuizScore ?w2 ?q ?qid ?ok = Inr w3"
    using updateQuizScore_returns by blast
  have scores: "quizScores w3 = (quizScores ?w2)(?q \<mapsto> count_answer sd ?qid ?ok)"
    using updateQuizScore_scores [OF w3] rec by auto
  have same: "map feedback (containers (disable_input w3 i)) = map feedback (containers ?w2)"
    using feedback_updateQuizScore [OF w3] by (simp only: feedback_disable_input)
  have i2: "i < length (containers ?w2)"
    using i1 by (simp only: feedback_showQuizFeedback(2))
  have "length (map feedback (containers (disable_input w3 i))) = length (map feedback (containers ?w2))"
    by (simp only: same)
  then have i3: "i < length (containers (disable_input w3 i))"
    using i2 by (simp only: length_map)
  have "feedback (containers (disable_input w3 i) ! i) =
      map feedback (containers (disable_input w3 i)) ! i"
    using i3 by (simp only: nth_map)
  also have "\<dots> = map feedback (containers ?w2) ! i"
    by (simp only: same)
  also have "\<dots> = feedback (containers ?w2 ! i)"
    using i2 by (simp only: nth_map)
  finally have "feedback (containers (disable_input w3 i) ! i) = feedback (containers ?w2 ! i)" .
  then have "fb_message (last (feedback (containers (disable_input w3 i) ! i))) =
      (if ?ok then ''Correct!'' else ''Incorrect'')"
    using feedback_showQuizFeedback(1) [OF i1] by simp
  moreover have "quizScores (disable_input w3 i) ?q = Some (count_answer sd ?qid ?ok)"
    by (simp add: scores)
  ultimately show ?thesis
    by (simp add: unfold w3)
qed

text \<open>
  The same submission when the identifier makes the text of line 321 no selector: the
  answer is graded, shown and counted in the same way, and the handler ends with the
  \<^verbatim>\<open>SyntaxError\<close>.
\<close>

lemma handleQuizSubmit_graded_stopped:
  assumes "i < length (containers w)"
      and "inputs (containers w ! i) = input # others"
      and "in_correctAnswer input = Some expected" and "expected \<noteq> []"
      and "quizScores w (key_of (quizId (containers w ! i))) = Some sd"
      and "quiz_selector (key_of (quizId (containers w ! i))) ''] .quiz-score'' = Invalid"
  shows "\<exists>w'. handleQuizSubmit w i = Inl (Throws SyntaxError, w')
          \<and> quizScores w' (key_of (quizId (containers w ! i))) =
              Some (count_answer sd (or_else (in_questionId input) ''input-question'')
                      (toLowerCase (trim (in_value input)) = toLowerCase expected))
          \<and> fb_message (last (feedback (containers w' ! i))) =
              (if toLowerCase (trim (in_value input)) = toLowerCase expected
               then ''Correct!'' else ''Incorrect'')"
proof -
  let ?c = "containers w ! i"
  let ?q = "key_of (quizId ?c)"
  let ?ok = "toLowerCase (trim (in_value input)) = toLowerCase expected"
  let ?qid = "or_else (in_questionId input) ''input-question''"
  let ?marked = "input\<lparr>
      in_classes := add_class (if ?ok then ''correct'' else ''incorrect'') (in_classes input),
      in_borderColor := (if ?ok then ''#10b981'' else ''#ef4444''),
      in_background := (if ?ok then ''rgba(16, 185, 129, 0.1)'' else ''rgba(239, 68, 68, 0.1)'')\<rparr>"
  let ?w1 = "w\<lparr>containers := (containers w)[i := ?c\<lparr>inputs := ?marked # others\<rparr>]\<rparr>"
  let ?w2 = "showQuizFeedback ?w1 i ?ok
      (if ?ok then in_explanation input
       else Some (or_else (in_explanation input) (''Correct answer: '' @ expected)))"
  let ?w3 = "?w2\<lparr>quizScores := (quizScores ?w2)(?q \<mapsto> count_answer sd ?qid ?ok)\<rparr>"
  have unfold: "handleQuizSubmit w i =
      (case updateQuizScore ?w2 ?q ?qid ?ok of Inl e \<Rightarrow> Inl e | Inr w3 \<Rightarrow> Inr (disable_input w3 i))"
    using assms(2,3,4) by (simp add: handleQuizSubmit_def Let_def)
  have i1: "i < length (containers ?w1)"
    using assms(1) by simp
  have rec: "quizScores ?w2 ?q = Some sd"
    using assms(5) by simp
  have stopped: "updateQuizScore ?w2 ?q ?qid ?ok = Inl (Throws SyntaxError, ?w3)"
    using rec assms(6) by (rule updateQuizScore_invalid_selector)
  have "fb_message (last (feedback (containers ?w3 ! i))) =
      (if ?ok then ''Correct!'' else ''Incorrect'')"
    using feedback_showQuizFeedback(1) [OF i1] by simp
  moreover have "quizScores ?w3 ?q = Some (count_answer sd ?qid ?ok)"
    by simp
  ultimately show ?thesis
    by (simp only: unfold stopped sum.case) blast
qed

lemmas submit_eval = handleQuizSubmit_def showQuizFeedback_def updateQuizScore_def
  checkQuizCompletion_def refresh_score_def count_answer_def gradable_def disable_input_def
  showCelebration_def triggerConfetti_def key_of_def or_else_def add_class_def
  trim_def toLowerCase_def lower_char_def is_ws_def Let_def
  quiz_selector_def filter_code_point_def is_whitespace_def has_id_def

text \<open>
  Claim C2 as stated fails on the page \<open>padded_quiz\<close>: the expected answer is
  \<^verbatim>\<open>" Delta"\<close>, the submitted value is its trimmed, lower-cased form \<^verbatim>\<open>"delta"\<close>, and the
  submission is graded incorrect.
\<close>

theorem handleQuizSubmit_padded_expected:
  "in_correctAnswer padded_input = Some '' Delta''
   \<and> in_value padded_input = toLowerCase (trim '' Delta'')
   \<and> handleQuizSubmit padded_quiz 0 = Inr padded_quiz_submitted
   \<and> map fb_message (feedback (containers padded_quiz_submitted ! 0)) = [''Incorrect'']
   \<and> map_option correct (quizScores padded_quiz_submitted ''quiz-0'') = Some 0"
  by (simp add: padded_quiz_def padded_input_def padded_quiz_submitted_def submit_eval)

text \<open>
  Claim C2, amended. A free-text submission is graded by comparing the submitted value,
  trimmed and lower-cased, with the expected value, lower-cased but not trimmed: with an
  input, a non-empty expected answer and a score record, the handler counts the answer
  as correct exactly when the two strings are equal and shows the matching feedback. It
  then returns when the selectors take the quiz identifier as it is, and ends with a
  \<^verbatim>\<open>SyntaxError\<close> when the identifier makes the text of line 321 no selector. For an
  expected answer without surrounding white space, the submitted value equal to its
  lower-cased form is graded correct; an expected answer that starts or ends with white
  space is matched by no submitted value.
\<close>

theorem handleQuizSubmit_grading:
  assumes "i < length (containers w)"
      and "inputs (containers w ! i) = input # others"
      and "in_correctAnswer input = Some expected" and "expected \<noteq> []"
      and "quizScores w (key_of (quizId (containers w ! i))) = Some sd"
  shows "(list_all css_plain (key_of (quizId (containers w ! i))) \<longrightarrow>
          (\<exists>w'. handleQuizSubmit w i = Inr w'
            \<and> quizScores w' (key_of (quizId (containers w ! i))) =
                Some (count_answer sd (or_else (in_questionId input) ''input-question'')
                        (toLowerCase (trim (in_value input)) = toLowerCase expected))
            \<and> fb_message (last (feedback (containers w' ! i))) =
                (if toLowerCase (trim (in_value input)) = toLowerCase expected
                 then ''Correct!'' else ''Incorrect'')))
    \<and> (quiz_selector (key_of (quizId (containers w ! i))) ''] .quiz-score'' = Invalid \<longrightarrow>
          (\<exists>w'. handleQuizSubmit w i = Inl (Throws SyntaxError, w')
            \<and> quizScores w' (key_of (quizId (containers w ! i))) =
                Some (count_answer sd (or_else (in_questionId input) ''input-question'')
                        (toLowerCase (trim (in_value input)) = toLowerCase expected))
            \<and> fb_message (last (feedback (containers w' ! i))) =
                (if toLowerCase (trim (in_value input)) = toLowerCase expected
                 then ''Correct!'' else ''Incorrect'')))
    \<and> (trim expected = expected \<and> in_value input = toLowerCase expected \<longrightarrow>
           toLowerCase (trim (in_value input)) = toLowerCase expected)
    \<and> (is_ws (hd expected) \<or> is_ws (last expected) \<longrightarrow>
           toLowerCase (trim (in_value input)) \<noteq> toLowerCase expected)"
proof (intro conjI impI)
  assume "list_all css_plain (key_of (quizId (containers w ! i)))"
  with assms show "\<exists>w'. handleQuizSubmit w i = Inr w'
      \<and> quizScores w' (key_of (quizId (containers w ! i))) =
          Some (count_answer sd (or_else (in_questionId input) ''input-question'')
                  (toLowerCase (trim (in_value input)) = toLowerCase expected))
      \<and> fb_message (last (feedback (containers w' ! i))) =
          (if toLowerCase (trim (in_value input)) = toLowerCase expected
           then ''Correct!'' else ''Incorrect'')"
    by (rule handleQuizSubmit_graded)
next
  assume "quiz_selector (key_of (quizId (containers w ! i))) ''] .quiz-score'' = Invalid"
  with assms show "\<exists>w'. handleQuizSubmit w i = Inl (Throws SyntaxError, w')
      \<and> quizScores w' (key_of (quizId (containers w ! i))) =
          Some (count_answer sd (or_else (in_questionId input) ''input-question'')
                  (toLowerCase (trim (in_value input)) = toLowerCase expected))
      \<and> fb_message (last (feedback (containers w' ! i))) =
          (if toLowerCase (trim (in_value input)) = toLowerCase expected
           then ''Correct!'' else ''Incorrect'')"
    by (rule handleQuizSubmit_graded_stopped)
next
  assume "trim expected = expected \<and> in_value input = toLowerCase expected"
  then show "toLowerCase (trim (in_value input)) = toLowerCase expected"
    using clean_matches [of expected] by simp
next
  assume "is_ws (hd expected) \<or> is_ws (last expected)"
  then show "toLowerCase (trim (in_value input)) \<noteq> toLowerCase expected"
    using padded_never_matches [OF assms(4), of "in_value input"] by blast
qed

text \<open>
  The page \<open>clean_quiz\<close>, where \<^verbatim>\<open>" DELTA "\<close> answers \<^verbatim>\<open>"Delta"\<close> and is graded correct, the
  page \<open>quoted_quiz\<close>, where the same answer is graded correct before the handler ends
  with a \<^verbatim>\<open>SyntaxError\<close>, and the page \<open>padded_quiz\<close>, where the expected answer starts
  with a space.
\<close>

theorem handleQuizSubmit_grading_witness:
  "0 < length (containers clean_quiz)
   \<and> inputs (containers clean_quiz ! 0) =
       [padded_input\<lparr>in_value := '' DELTA '', in_correctAnswer := Some ''Delta''\<rparr>]
   \<and> quizScores clean_quiz (key_of (quizId (containers clean_quiz ! 0))) =
       Some \<lparr> total = 0, correct = 0, answered = {} \<rparr>
   \<and> list_all css_plain (key_of (quizId (containers clean_quiz ! 0)))
   \<and> trim ''Delta'' = ''Delta''
   \<and> (\<exists>w'. handleQuizSubmit clean_quiz 0 = Inr w'
         \<and> quizScores w' ''quiz-0'' =
             Some \<lparr> total = 1, correct = 1, answered = {''input-question''} \<rparr>
         \<and> fb_message (last (feedback (containers w' ! 0))) = ''Correct!'')
   \<and> quiz_selector (key_of (quizId (containers quoted_quiz ! 0))) ''] .quiz-score'' = Invalid
   \<and> (\<exists>w'. handleQuizSubmit quoted_quiz 0 = Inl (Throws SyntaxError, w')
         \<and> quizScores w' quoted_id =
             Some \<lparr> total = 1, correct = 1, answered = {''input-question''} \<rparr>
         \<and> fb_message (last (feedback (containers w' ! 0))) = ''Correct!'')
   \<and> is_ws (hd '' Delta'')
   \<and> toLowerCase (trim (in_value padded_input)) \<noteq> toLowerCase '' Delta''"
proof -
  let ?input = "padded_input\<lparr>in_value := '' DELTA '', in_correctAnswer := Some ''Delta''\<rparr>"
  let ?sd = "\<lparr> total = 0, correct = 0, answered = {} \<rparr>"
  have a: "0 < length (containers clean_quiz)"
    by (simp add: clean_quiz_def)
  have b: "inputs (containers clean_quiz ! 0) = ?input # []"
    by (simp add: clean_quiz_def)
  have c: "in_correctAnswer ?input = Some ''Delta''" and d: "''Delta'' \<noteq> []"
    by simp_all
  have e: "quizScores clean_quiz (key_of (quizId (containers clean_quiz ! 0))) = Some ?sd"
    by (simp add: clean_quiz_def padded_quiz_def key_of_def)
  have k: "key_of (quizId (containers clean_quiz ! 0)) = ''quiz-0''"
    by (simp add: clean_quiz_def padded_quiz_def key_of_def)
  have pl: "list_all css_plain (key_of (quizId (containers clean_quiz ! 0)))"
    by (simp add: k css_plain_def)
  have m: "toLowerCase (trim '' DELTA '') = toLowerCase ''Delta''"
    by (simp add: trim_def toLowerCase_def lower_char_def is_ws_def)
  have t: "trim ''Delta'' = ''Delta''"
    by (simp add: trim_def is_ws_def)
  have ws: "is_ws (hd '' Delta'')"
    by (simp add: is_ws_def)
  have a': "0 < length (containers padded_quiz)"
    and b': "inputs (containers padded_quiz ! 0) = padded_input # []"
    and c': "in_correctAnswer padded_input = Some '' Delta''" and d': "'' Delta'' \<noteq> []"
    and e': "quizScores padded_quiz (key_of (quizId (containers padded_quiz ! 0))) = Some ?sd"
    by (simp_all add: padded_quiz_def padded_input_def key_of_def)
  have a'': "0 < length (containers quoted_quiz)"
    and b'': "inputs (containers quoted_quiz ! 0) = ?input # []"
    and e'': "quizScores quoted_quiz (key_of (quizId (containers quoted_quiz ! 0))) = Some ?sd"
    and k'': "key_of (quizId (containers quoted_quiz ! 0)) = quoted_id"
    by (simp_all add: quoted_quiz_def key_of_def)
  have inv: "quiz_selector (key_of (quizId (containers quoted_quiz ! 0))) ''] .quiz-score'' = Invalid"
    by (simp add: k'') (simp add: quoted_id_def quiz_selector_def filter_code_point_def is_whitespace_def)
  have "\<exists>w'. handleQuizSubmit clean_quiz 0 = Inr w'
         \<and> quizScores w' ''quiz-0'' =
             Some \<lparr> total = 1, correct = 1, answered = {''input-question''} \<rparr>
         \<and> fb_message (last (feedback (containers w' ! 0))) = ''Correct!''"
    using handleQuizSubmit_grading [OF a b c d e] pl
    by (simp add: k m count_answer_def or_else_def padded_input_def)
  moreover have "\<exists>w'. handleQuizSubmit quoted_quiz 0 = Inl (Throws SyntaxError, w')
         \<and> quizScores w' quoted_id =
             Some \<lparr> total = 1, correct = 1, answered = {''input-question''} \<rparr>
         \<and> fb_message (last (feedback (containers w' ! 0))) = ''Correct!''"
    using handleQuizSubmit_grading [OF a'' b'' c d e''] inv
    by (simp add: k'' m count_answer_def or_else_def padded_input_def)
  moreover have "toLowerCase (trim (in_value padded_input)) \<noteq> toLowerCase '' Delta''"
    using handleQuizSubmit_grading [OF a' b' c' d' e'] ws by blast
  ultimately show ?thesis
    using a b e pl inv t ws by simp
qed

text \<open>
  The whole page after the submission on \<open>quoted_quiz\<close>: the handler has not reached its
  last three statements, and the input and the button are still enabled.
\<close>

lemma handleQuizSubmit_quoted_id:
  "handleQuizSubmit quoted_quiz 0 = Inl (Throws SyntaxError, quoted_quiz_stopped)
   \<and> map in_disabled (inputs (containers quoted_quiz_stopped ! 0)) = [False]
   \<and> submitDisabled (containers quoted_quiz_stopped ! 0) = Some False
   \<and> celebrations (containers quoted_quiz_stopped ! 0) = 0"
  by (simp add: quoted_quiz_def quoted_id_def padded_input_def quoted_quiz_stopped_def submit_eval)

section \<open>One call per burst\<close>






text \<open>An invocation after the quiet period has elapsed is a second call.\<close>

lemma debounce_two_calls:
  "calls (debounce None [(0, ''a''), (300, ''b'')]) = [''a'', ''b'']"
  by (simp add: debounce_def quiet_period_def idle_def run_timers.simps due_by_def later_def
      clearTimeout_def executedFunction_def Let_def)

end
